theory Spec2Isabelle
  imports Complex_Main "HOL-Library.Multiset"
begin

section \<open>Numbers\<close>

text \<open>
  The analytics code computes on JavaScript numbers, which are IEEE doubles. A finite double
  is a real number, and the comparisons of the code are the comparisons of these reals. The
  non-finite results the code can produce or test for (\<open>null\<close>, \<open>Infinity\<close>, a division by
  zero) are written out as separate values wherever a function produces or inspects them.

  Every arithmetic operation of a double computation returns the exact result rounded to a
  double. Where a branch of the code depends on that rounding (the bin bounds of the
  volume profile, the zero test of the correlation), the rounding is an argument \<open>fl\<close> of
  the model: \<open>a + b\<close> of the source is \<open>fl (a + b)\<close>, a decimal literal \<open>0.7\<close> is \<open>fl (7 / 10)\<close>,
  and \<open>fl x = x\<close> says that \<open>x\<close> is a double. The other functions are modelled in the
  arithmetic that the operations approximate.
\<close>

text \<open>
  Exact arithmetic is the rounding that changes nothing. A double computation coincides
  with it as long as every intermediate result is a double, as it is for the small
  integers of the examples.
\<close>

definition exact :: "real \<Rightarrow> real" where
  "exact x = x"


section \<open>Relative strength index\<close>

text \<open>
  One pass of the loop of \<open>calculateRSI\<close> at index \<open>i\<close>: a positive change is added to
  \<open>gains\<close>, any other change is subtracted from \<open>losses\<close>. The loop starts at
  \<open>data.length - period\<close>, which is at least 1 after the length guard, so \<open>data[i - 1]\<close>
  is always in range.
\<close>

definition rsiStep :: "real list \<Rightarrow> real \<times> real \<Rightarrow> nat \<Rightarrow> real \<times> real" where
  "rsiStep data acc i =
     (let change = data ! i - data ! (i - 1)
      in if change > 0 then (fst acc + change, snd acc) else (fst acc, snd acc - change))"

text \<open>
  The result is \<open>None\<close> where the JavaScript result is \<open>NaN\<close>: with \<open>period = 0\<close> and a
  non-empty series both averages are \<open>0 / 0\<close>, the test \<open>avgLoss === 0\<close> fails on \<open>NaN\<close>
  and \<open>NaN\<close> propagates through the final expression. For a positive period every
  division is by a non-zero number: by \<open>period\<close>, by \<open>avgLoss \<noteq> 0\<close>, and by \<open>1 + rs\<close>
  with \<open>rs \<ge> 0\<close>.
\<close>

definition calculateRSI :: "real list \<Rightarrow> nat \<Rightarrow> real option" where
  "calculateRSI data period =
     (if length data < period + 1 then Some 50
      else if period = 0 then None
      else
        let acc = foldl (rsiStep data) (0, 0) [length data - period ..< length data];
            gains = fst acc;
            losses = snd acc;
            avgGain = gains / real period;
            avgLoss = losses / real period
        in if avgLoss = 0 then Some 100
           else let rs = avgGain / avgLoss in Some (100 - 100 / (1 + rs)))"

text \<open>The summed losses over the last \<open>period\<close> deltas, as the specification words them.\<close>

definition summedLosses :: "real list \<Rightarrow> nat \<Rightarrow> real" where
  "summedLosses data period =
     (\<Sum>i\<leftarrow>[length data - period ..< length data]. max 0 (data ! (i - 1) - data ! i))"

text \<open>A series of fifteen points that alternates between 1 and 2: seven gains and seven losses of 1.\<close>

definition alternating15 :: "real list" where
  "alternating15 = [1, 2, 1, 2, 1, 2, 1, 2, 1, 2, 1, 2, 1, 2, 1]"

text \<open>A series of fifteen rising points: fourteen gains, no loss.\<close>

definition rising15 :: "real list" where
  "rising15 = [1, 2, 3, 4, 5, 6, 7, 8, 9, 10, 11, 12, 13, 14, 15]"

section \<open>Max pain\<close>

text \<open>
  The per-strike aggregate built by \<open>calculateOptionsWalls\<close>: the seven fields of a
  \<open>strikeData\<close> entry, extended by the four derived metrics.
\<close>

record strikeData =
  strike :: real
  callOI :: real
  putOI :: real
  callVolume :: real
  putVolume :: real
  callGamma :: real
  putGamma :: real

record wall = strikeData +
  netOI :: real
  netGamma :: real
  totalOI :: real
  putCallRatio :: real

text \<open>The inner \<open>walls.forEach\<close> of \<open>calculateMaxPain\<close>: the pain at one candidate strike.\<close>

definition painStep :: "real \<Rightarrow> real \<Rightarrow> ('a wall_scheme) \<Rightarrow> real" where
  "painStep s totalPain w =
     (let tp1 = (if s > strike w then totalPain + callOI w * (s - strike w) else totalPain)
      in (if s < strike w then tp1 + putOI w * (strike w - s) else tp1))"

definition totalPainAt :: "('a wall_scheme) list \<Rightarrow> real \<Rightarrow> real" where
  "totalPainAt walls s = foldl (painStep s) 0 walls"

text \<open>
  The outer loop. \<open>minPain\<close> starts at \<open>Infinity\<close>, written \<open>None\<close>: every finite pain is
  below it. \<open>maxPainStrike\<close> starts at \<open>null\<close>, written \<open>None\<close>.
\<close>

definition belowMinPain :: "real \<Rightarrow> real option \<Rightarrow> bool" where
  "belowMinPain totalPain minPain = (case minPain of None \<Rightarrow> True | Some m \<Rightarrow> totalPain < m)"

definition maxPainStep ::
  "('a wall_scheme) list \<Rightarrow> real option \<times> real option \<Rightarrow> ('a wall_scheme) \<Rightarrow> real option \<times> real option" where
  "maxPainStep walls acc w =
     (let totalPain = totalPainAt walls (strike w)
      in if belowMinPain totalPain (snd acc) then (Some (strike w), Some totalPain) else acc)"

definition calculateMaxPain :: "('a wall_scheme) list \<Rightarrow> real option" where
  "calculateMaxPain walls = fst (foldl (maxPainStep walls) (None, None) walls)"

text \<open>
  The total pain as the specification words it: the call open interest of the strikes below
  the candidate and the put open interest of the strikes above it, each weighted by its
  distance to the candidate.
\<close>

definition totalPainSpec :: "('a wall_scheme) list \<Rightarrow> real \<Rightarrow> real" where
  "totalPainSpec walls c =
     (\<Sum>w\<leftarrow>filter (\<lambda>w. strike w < c) walls. callOI w * (c - strike w)) +
     (\<Sum>w\<leftarrow>filter (\<lambda>w. strike w > c) walls. putOI w * (strike w - c))"

text \<open>The synthetic three-strike chain: strikes 95, 100, 105 with call OI 10, 5, 0 and put OI 0, 5, 10.\<close>

definition mkWall :: "real \<Rightarrow> real \<Rightarrow> real \<Rightarrow> wall" where
  "mkWall s c p =
     \<lparr>strike = s, callOI = c, putOI = p, callVolume = 0, putVolume = 0, callGamma = 0,
      putGamma = 0, netOI = c - p, netGamma = 0, totalOI = c + p,
      putCallRatio = (if c > 0 then p / c else 0)\<rparr>"

definition chain3 :: "wall list" where
  "chain3 = [mkWall 95 10 0, mkWall 100 5 5, mkWall 105 0 10]"

text \<open>
  The loop invariant of the max-pain search: after the strikes in \<open>seen\<close>, the accumulator
  holds one of them together with its pain, and no strike seen so far has a smaller pain.
\<close>

definition maxPainInv :: "('a wall_scheme) list \<Rightarrow> ('a wall_scheme) list \<Rightarrow> real option \<times> real option \<Rightarrow> bool" where
  "maxPainInv W seen acc =
     (if seen = [] then acc = (None, None)
      else (\<exists>c. acc = (Some c, Some (totalPainAt W c)) \<and> c \<in> strike ` set seen \<and>
                (\<forall>w\<in>set seen. totalPainAt W c \<le> totalPainAt W (strike w))))"

section \<open>Correlation\<close>

text \<open>
  \<open>arr.reduce((a, b) => a + b)\<close> without an initial value: the fold starts from the first
  element. It is only called after the guard has excluded the empty array.
\<close>

definition reduceSum :: "(real \<Rightarrow> real) \<Rightarrow> real list \<Rightarrow> real" where
  "reduceSum fl arr = foldl (\<lambda>a b. fl (a + b)) (hd arr) (tl arr)"

text \<open>One pass of the loop of \<open>calculateCorrelation\<close>; the accumulator is
  \<open>(numerator, denom1, denom2)\<close>.\<close>

definition corrStep ::
  "(real \<Rightarrow> real) \<Rightarrow> real list \<Rightarrow> real list \<Rightarrow> real \<Rightarrow> real \<Rightarrow> real \<times> real \<times> real \<Rightarrow> nat \<Rightarrow>
     real \<times> real \<times> real" where
  "corrStep fl arr1 arr2 mean1 mean2 acc i =
     (case acc of (numerator, denom1, denom2) \<Rightarrow>
        let diff1 = fl (arr1 ! i - mean1);
            diff2 = fl (arr2 ! i - mean2)
        in (fl (numerator + fl (diff1 * diff2)),
            fl (denom1 + fl (diff1 * diff1)),
            fl (denom2 + fl (diff2 * diff2))))"

text \<open>
  The tests \<open>denom1 === 0\<close> and \<open>denom2 === 0\<close> are made on the rounded sums. The last
  divisor is 0 with both sums non-zero only when their product underflows, for sums below
  \<open>1e-162\<close>; the quotient is then not a finite number, and nothing is proved of that case.
\<close>

definition calculateCorrelation :: "(real \<Rightarrow> real) \<Rightarrow> real list \<Rightarrow> real list \<Rightarrow> real" where
  "calculateCorrelation fl arr1 arr2 =
     (if length arr1 \<noteq> length arr2 \<or> length arr1 = 0 then 0
      else
        let n = length arr1;
            mean1 = fl (reduceSum fl arr1 / real n);
            mean2 = fl (reduceSum fl arr2 / real n)
        in case foldl (corrStep fl arr1 arr2 mean1 mean2) (0, 0, 0) [0 ..< n] of
             (numerator, denom1, denom2) \<Rightarrow>
               if denom1 = 0 \<or> denom2 = 0 then 0
               else fl (numerator / fl (sqrt (fl (denom1 * denom2)))))"



text \<open>\<open>xs.slice(a, b)\<close> for indices \<open>0 \<le> a \<le> b\<close>: the elements at \<open>a, \<dots>, b - 1\<close> that exist.\<close>

definition jsSlice :: "'a list \<Rightarrow> nat \<Rightarrow> nat \<Rightarrow> 'a list" where
  "jsSlice xs a b = take (b - a) (drop a xs)"

text \<open>
  The points given to \<open>calculateRollingCorrelation\<close>, and the points it emits: the same
  three fields of \<open>data[i]\<close> together with the correlation.
\<close>

record corrPoint =
  cp_timestamp :: real
  cp_spy :: real
  cp_vix :: real

record corrResult = corrPoint +
  spyVixCorr :: real

definition rollingAt :: "(real \<Rightarrow> real) \<Rightarrow> corrPoint list \<Rightarrow> nat \<Rightarrow> nat \<Rightarrow> corrResult" where
  "rollingAt fl data window i =
     (let slice = jsSlice data (i - window) i;
          spyPrices = map cp_spy slice;
          vixPrices = map cp_vix slice
      in \<lparr>cp_timestamp = cp_timestamp (data ! i), cp_spy = cp_spy (data ! i),
          cp_vix = cp_vix (data ! i),
          spyVixCorr = calculateCorrelation fl spyPrices vixPrices\<rparr>)"

definition calculateRollingCorrelation ::
  "(real \<Rightarrow> real) \<Rightarrow> corrPoint list \<Rightarrow> nat \<Rightarrow> corrResult list" where
  "calculateRollingCorrelation fl data window =
     map (rollingAt fl data window) [window ..< length data]"

text \<open>
  The window of the claim as it is worded: the \<open>window\<close> points that end at index \<open>i\<close>,
  index \<open>i\<close> included.
\<close>

definition trailingWindow :: "'a list \<Rightarrow> nat \<Rightarrow> nat \<Rightarrow> 'a list" where
  "trailingWindow data window i = jsSlice data (i + 1 - window) (i + 1)"

definition rollingExample :: "corrPoint list" where
  "rollingExample =
     [\<lparr>cp_timestamp = 1, cp_spy = 2, cp_vix = 2\<rparr>,
      \<lparr>cp_timestamp = 2, cp_spy = 4, cp_vix = 4\<rparr>,
      \<lparr>cp_timestamp = 3, cp_spy = 6, cp_vix = 2\<rparr>]"


section \<open>Dealer metrics\<close>

text \<open>
  The option contracts read by \<open>calculateDealerMetrics\<close> (\<open>strike\<close>, \<open>type\<close>, \<open>oi\<close>,
  \<open>gamma\<close>, \<open>delta\<close>) and the entries of its \<open>strikeMap\<close>.
\<close>

record dealerOption =
  opt_strike :: real
  opt_type :: string
  opt_oi :: real
  opt_gamma :: real
  opt_delta :: real

record dealerStrike =
  ds_strike :: real
  ds_callGamma :: real
  ds_putGamma :: real
  ds_callDelta :: real
  ds_putDelta :: real
  ds_netGamma :: real
  ds_netDelta :: real

text \<open>
  \<open>strikeMap\<close> is an object keyed by the strike. It is modelled as the list of its entries
  in insertion order, one entry per key.
\<close>

definition hasStrike :: "dealerStrike list \<Rightarrow> real \<Rightarrow> bool" where
  "hasStrike strikeMap k = (k \<in> set (map ds_strike strikeMap))"

definition newDealerStrike :: "real \<Rightarrow> dealerStrike" where
  "newDealerStrike k =
     \<lparr>ds_strike = k, ds_callGamma = 0, ds_putGamma = 0, ds_callDelta = 0, ds_putDelta = 0,
      ds_netGamma = 0, ds_netDelta = 0\<rparr>"

text \<open>The body of \<open>options.forEach\<close>: any type other than \<open>'CALL'\<close> is booked as a put.\<close>

definition bookOption :: "dealerOption \<Rightarrow> dealerStrike \<Rightarrow> dealerStrike" where
  "bookOption opt s =
     (let notional = opt_oi opt * 100 * (- 1)
      in if opt_type opt = ''CALL''
         then s\<lparr>ds_callGamma := ds_callGamma s + opt_gamma opt * notional,
                ds_callDelta := ds_callDelta s + opt_delta opt * notional\<rparr>
         else s\<lparr>ds_putGamma := ds_putGamma s + opt_gamma opt * notional,
                ds_putDelta := ds_putDelta s + opt_delta opt * notional\<rparr>)"

definition dealerAdd :: "dealerStrike list \<Rightarrow> dealerOption \<Rightarrow> dealerStrike list" where
  "dealerAdd strikeMap opt =
     (let m = (if hasStrike strikeMap (opt_strike opt) then strikeMap
               else strikeMap @ [newDealerStrike (opt_strike opt)])
      in map (\<lambda>s. if ds_strike s = opt_strike opt then bookOption opt s else s) m)"

definition setNet :: "dealerStrike \<Rightarrow> dealerStrike" where
  "setNet s = s\<lparr>ds_netGamma := ds_callGamma s + ds_putGamma s,
                 ds_netDelta := ds_callDelta s + ds_putDelta s\<rparr>"

text \<open>
  \<open>Object.values\<close> lists the entries whose key is an array index (a non-negative integer
  below \<open>2^32 - 1\<close>) in ascending order first, and then the other entries in insertion
  order.
\<close>

definition isArrayIndex :: "real \<Rightarrow> bool" where
  "isArrayIndex k = (k = of_int \<lfloor>k\<rfloor> \<and> 0 \<le> k \<and> k < 4294967295)"

definition objectValues :: "('a \<Rightarrow> real) \<Rightarrow> 'a list \<Rightarrow> 'a list" where
  "objectValues key entries =
     sort_key key (filter (\<lambda>e. isArrayIndex (key e)) entries) @
     filter (\<lambda>e. \<not> isArrayIndex (key e)) entries"

text \<open>The search for the gamma flip: the first adjacent pair with a negative product ends the loop.\<close>

fun gammaFlipLoop :: "dealerStrike list \<Rightarrow> real option" where
  "gammaFlipLoop (a # b # rest) =
     (if ds_netGamma a * ds_netGamma b < 0 then Some ((ds_strike a + ds_strike b) / 2)
      else gammaFlipLoop (b # rest))"
| "gammaFlipLoop [a] = None"
| "gammaFlipLoop [] = None"

record dealerMetrics =
  strikes :: "dealerStrike list"
  totalGamma :: real
  totalDelta :: real
  gammaFlipPoint :: "real option"
  isShortGamma :: bool
  maxGammaStrike :: dealerStrike

text \<open>
  \<open>spy\<close> is \<open>None\<close> for \<open>null\<close>; \<open>!spy\<close> holds for \<open>null\<close> and for 0. The result \<open>None\<close> is the
  \<open>null\<close> that the function returns; \<open>gammaFlipPoint = None\<close> is the \<open>null\<close> that the search
  leaves when no pair ends it. \<open>sort\<close> is stable, as is \<open>sort_key\<close>.
\<close>

definition calculateDealerMetrics :: "dealerOption list \<Rightarrow> real option \<Rightarrow> dealerMetrics option" where
  "calculateDealerMetrics options spy =
     (if options = [] \<or> spy = None \<or> spy = Some 0 then None
      else
        let strikeMap = map setNet (foldl dealerAdd [] options);
            strikes = sort_key ds_strike (objectValues ds_strike strikeMap);
            totalGamma = foldl (\<lambda>sum s. sum + ds_netGamma s) 0 strikes;
            totalDelta = foldl (\<lambda>sum s. sum + ds_netDelta s) 0 strikes
        in Some \<lparr>strikes = strikes,
                 totalGamma = totalGamma,
                 totalDelta = totalDelta,
                 gammaFlipPoint = gammaFlipLoop strikes,
                 isShortGamma = (totalGamma < 0),
                 maxGammaStrike =
                   foldl (\<lambda>max s. if \<bar>ds_netGamma s\<bar> > \<bar>ds_netGamma max\<bar> then s else max)
                     (hd strikes) strikes\<rparr>)"

text \<open>Two net gammas have different signs when one is negative and the other positive.\<close>

definition signsDiffer :: "real \<Rightarrow> real \<Rightarrow> bool" where
  "signsDiffer a b = ((a < 0 \<and> 0 < b) \<or> (0 < a \<and> b < 0))"

definition signChangeAt :: "dealerStrike list \<Rightarrow> nat \<Rightarrow> bool" where
  "signChangeAt ss i = (i + 1 < length ss \<and> signsDiffer (ds_netGamma (ss ! i)) (ds_netGamma (ss ! (i + 1))))"

text \<open>
  A strike ladder 495, 500, 505, 510 whose net gamma is negative up to 500 and positive
  from 505 on, given in no particular order.
\<close>

definition mkOption :: "real \<Rightarrow> string \<Rightarrow> real \<Rightarrow> real \<Rightarrow> dealerOption" where
  "mkOption k t oi g = \<lparr>opt_strike = k, opt_type = t, opt_oi = oi, opt_gamma = g, opt_delta = 0\<rparr>"

definition ladder :: "dealerOption list" where
  "ladder = [mkOption 505 ''CALL'' 10 (- 2), mkOption 495 ''CALL'' 10 1, mkOption 510 ''PUT'' 10 (- 3),
             mkOption 500 ''PUT'' 10 2, mkOption 500 ''CALL'' 10 1]"

definition flatLadder :: "dealerOption list" where
  "flatLadder = [mkOption 500 ''CALL'' 10 1, mkOption 505 ''PUT'' 10 2]"


text \<open>
  The dealer net gamma of a strike as the specification words it: dealers are short every
  unit of open interest, so each contract at the strike contributes its gamma times the
  notional \<open>-OI \<times> 100\<close>.
\<close>

definition dealerNetGamma :: "dealerOption list \<Rightarrow> real \<Rightarrow> real" where
  "dealerNetGamma opts k =
     (\<Sum>opt\<leftarrow>filter (\<lambda>opt. opt_strike opt = k) opts. opt_gamma opt * (- (opt_oi opt * 100)))"


section \<open>Sentiment scorer\<close>

text \<open>
  The volatility metrics read by \<open>generatePrediction\<close>, as \<open>calculateVolatilityMetrics\<close>
  returns them.
\<close>

record volMetrics =
  atmIV :: real
  historicalVol :: real
  ivHVSpread :: real
  pcrVolume :: real
  pcrOI :: real
  ivSkew :: real
  vixLevel :: real

record signal =
  factor :: string
  sentiment :: string
  weight :: real

text \<open>The three locals \<open>bull\<close>, \<open>bear\<close> and \<open>signals\<close> that the six rules update.\<close>

record scoreState =
  st_bull :: real
  st_bear :: real
  st_signals :: "signal list"

text \<open>\<open>bull += w; signals.push({factor, sentiment: 'bullish', weight: w})\<close>, and the same for \<open>bear\<close>.\<close>

definition addBullish :: "string \<Rightarrow> real \<Rightarrow> scoreState \<Rightarrow> scoreState" where
  "addBullish f w st =
     st\<lparr>st_bull := st_bull st + w,
        st_signals := st_signals st @ [\<lparr>factor = f, sentiment = ''bullish'', weight = w\<rparr>]\<rparr>"

definition addBearish :: "string \<Rightarrow> real \<Rightarrow> scoreState \<Rightarrow> scoreState" where
  "addBearish f w st =
     st\<lparr>st_bear := st_bear st + w,
        st_signals := st_signals st @ [\<lparr>factor = f, sentiment = ''bearish'', weight = w\<rparr>]\<rparr>"

text \<open>
  In a comparison \<open>spy > dealerMetrics.gammaFlipPoint\<close> a \<open>null\<close> flip point is converted to
  the number 0.
\<close>

definition nullToZero :: "real option \<Rightarrow> real" where
  "nullToZero x = (case x of None \<Rightarrow> 0 | Some v \<Rightarrow> v)"

text \<open>The six rules, in the order of the source. The first has no branch without a signal.\<close>

definition dealerGammaRule :: "dealerMetrics \<Rightarrow> real \<Rightarrow> scoreState \<Rightarrow> scoreState" where
  "dealerGammaRule dealerMetrics spy st =
     (if isShortGamma dealerMetrics then
        (if spy > nullToZero (gammaFlipPoint dealerMetrics)
         then addBullish ''Dealer Short Gamma Above Flip'' 2 st
         else addBearish ''Dealer Short Gamma Below Flip'' 2 st)
      else addBearish ''Dealer Long Gamma (Dampening)'' 1 st)"

definition pcrRule :: "volMetrics \<Rightarrow> scoreState \<Rightarrow> scoreState" where
  "pcrRule volMetrics st =
     (if pcrVolume volMetrics > 12 / 10 then addBullish ''High Put Buying (PCR > 1.2)'' 1 st
      else if pcrVolume volMetrics < 7 / 10 then addBearish ''High Call Buying (PCR < 0.7)'' 1 st
      else st)"

definition ivSpreadRule :: "volMetrics \<Rightarrow> scoreState \<Rightarrow> scoreState" where
  "ivSpreadRule volMetrics st =
     (if ivHVSpread volMetrics > 5 / 100 then addBearish ''IV Premium to HV (Fear)'' 1 st
      else if ivHVSpread volMetrics < - (2 / 100) then addBullish ''IV Discount to HV'' 1 st
      else st)"

definition vixRule :: "volMetrics \<Rightarrow> scoreState \<Rightarrow> scoreState" where
  "vixRule volMetrics st =
     (if vixLevel volMetrics > 25 then addBullish ''Elevated VIX (>25)'' 2 st
      else if vixLevel volMetrics < 12 then addBearish ''Low VIX (<12)'' 1 st
      else st)"

definition ivSkewRule :: "volMetrics \<Rightarrow> scoreState \<Rightarrow> scoreState" where
  "ivSkewRule volMetrics st =
     (if ivSkew volMetrics > 5 / 100 then addBearish ''High Put Skew (>5%)'' 1 st else st)"

definition skewIndexRule :: "real \<Rightarrow> scoreState \<Rightarrow> scoreState" where
  "skewIndexRule skew st =
     (if skew > 140 then addBearish ''Elevated SKEW (>140)'' 2 st
      else if skew < 120 then addBullish ''Low SKEW (<120)'' 1 st
      else st)"

definition scoreRules :: "volMetrics \<Rightarrow> dealerMetrics \<Rightarrow> real \<Rightarrow> real \<Rightarrow> scoreState" where
  "scoreRules volMetrics dealerMetrics spy skew =
     skewIndexRule skew (ivSkewRule volMetrics (vixRule volMetrics (ivSpreadRule volMetrics
       (pcrRule volMetrics (dealerGammaRule dealerMetrics spy
          \<lparr>st_bull = 0, st_bear = 0, st_signals = []\<rparr>)))))"

text \<open>
  A JavaScript division gives \<open>NaN\<close> or an infinity when the divisor is 0; \<open>None\<close> stands
  for these results, so that a division by zero shows in the model.
\<close>

definition jsDivide :: "real \<Rightarrow> real \<Rightarrow> real option" where
  "jsDivide a b = (if b = 0 then None else Some (a / b))"

record prediction =
  prediction :: string
  confidence :: "real option"
  signals :: "signal list"
  bullishScore :: real
  bearishScore :: real
  timestamp :: string
  spyPriceAtPrediction :: real

text \<open>
  \<open>generatePrediction\<close> reads the clock: \<open>new Date().toISOString()\<close>. The string it obtains is
  the first argument \<open>now\<close> of the model. The metrics are \<open>None\<close> for \<open>null\<close>, on which the
  function returns \<open>null\<close>.
\<close>

definition generatePrediction ::
  "string \<Rightarrow> volMetrics option \<Rightarrow> dealerMetrics option \<Rightarrow> real \<Rightarrow> real \<Rightarrow> prediction option" where
  "generatePrediction now volMetrics dealerMetrics spy skew =
     (case (volMetrics, dealerMetrics) of
        (Some vm, Some dm) \<Rightarrow>
          let st = scoreRules vm dm spy skew;
              bull = st_bull st;
              bear = st_bear st
          in Some \<lparr>prediction = (if bull > bear then ''BULLISH'' else ''BEARISH''),
                   confidence = jsDivide \<bar>bull - bear\<bar> (bull + bear),
                   signals = st_signals st,
                   bullishScore = bull,
                   bearishScore = bear,
                   timestamp = now,
                   spyPriceAtPrediction = spy\<rparr>
      | _ \<Rightarrow> None)"

text \<open>The summed weight of the signals of one sentiment, as the specification words the scores.\<close>

definition summedWeight :: "string \<Rightarrow> signal list \<Rightarrow> real" where
  "summedWeight s sigs = (\<Sum>g\<leftarrow>filter (\<lambda>g. sentiment g = s) sigs. weight g)"

definition dealerFactors :: "string set" where
  "dealerFactors = {''Dealer Short Gamma Above Flip'', ''Dealer Short Gamma Below Flip'',
                    ''Dealer Long Gamma (Dampening)''}"

text \<open>Sample inputs: quiet volatility metrics, and the dealer metrics of the ladder above.\<close>

definition quietVol :: volMetrics where
  "quietVol = \<lparr>atmIV = 16 / 100, historicalVol = 15 / 100, ivHVSpread = 1 / 100, pcrVolume = 1,
               pcrOI = 1, ivSkew = 0, vixLevel = 18\<rparr>"

definition longGamma :: dealerMetrics where
  "longGamma = \<lparr>strikes = [], totalGamma = 4000, totalDelta = 0, gammaFlipPoint = None,
                isShortGamma = False, maxGammaStrike = newDealerStrike 500\<rparr>"


text \<open>
  The invariant of the six rules: the two scores are the summed weights of the signals of
  their sentiment, and neither is negative.
\<close>

definition scoreInv :: "scoreState \<Rightarrow> bool" where
  "scoreInv st = (st_bull st = summedWeight ''bullish'' (st_signals st) \<and>
                  st_bear st = summedWeight ''bearish'' (st_signals st) \<and>
                  0 \<le> st_bull st \<and> 0 \<le> st_bear st)"


section \<open>Options walls\<close>

text \<open>
  The contracts read by \<open>calculateOptionsWalls\<close>. Apart from the strike every field may be
  absent (\<open>None\<close>): the source supplies defaults with \<open>||\<close>.
\<close>

record wallOption =
  wo_strike :: real
  wo_type :: "string option"
  wo_openInterest :: "real option"
  wo_oi :: "real option"
  wo_volume :: "real option"
  wo_gamma :: "real option"

text \<open>\<open>a || d\<close> on a number that may be absent: the default replaces an absent value and 0.\<close>

definition orElse :: "real option \<Rightarrow> real \<Rightarrow> real" where
  "orElse a d = (case a of None \<Rightarrow> d | Some x \<Rightarrow> if x = 0 then d else x)"

text \<open>\<open>toLowerCase\<close> on the letters A to Z, which is all that the comparison with
  \<open>'call'\<close> and \<open>'put'\<close> can depend on.\<close>

definition lowerChar :: "char \<Rightarrow> char" where
  "lowerChar c =
     (case map_of (zip ''ABCDEFGHIJKLMNOPQRSTUVWXYZ'' ''abcdefghijklmnopqrstuvwxyz'') c of
        None \<Rightarrow> c
      | Some l \<Rightarrow> l)"

definition toLowerCase :: "string \<Rightarrow> string" where
  "toLowerCase s = map lowerChar s"

definition newStrikeData :: "real \<Rightarrow> strikeData" where
  "newStrikeData k =
     \<lparr>strike = k, callOI = 0, putOI = 0, callVolume = 0, putVolume = 0, callGamma = 0, putGamma = 0\<rparr>"

definition bookWallOption :: "wallOption \<Rightarrow> strikeData \<Rightarrow> strikeData" where
  "bookWallOption opt s =
     (let optType = toLowerCase (case wo_type opt of None \<Rightarrow> [] | Some t \<Rightarrow> t);
          openInterest = orElse (wo_openInterest opt) (orElse (wo_oi opt) 0);
          volume = orElse (wo_volume opt) 0;
          gamma = orElse (wo_gamma opt) 0
      in if optType = ''call''
         then s\<lparr>callOI := callOI s + openInterest,
                callVolume := callVolume s + volume,
                callGamma := callGamma s + gamma * openInterest\<rparr>
         else if optType = ''put''
         then s\<lparr>putOI := putOI s + openInterest,
                putVolume := putVolume s + volume,
                putGamma := putGamma s + gamma * openInterest\<rparr>
         else s)"

definition wallAdd :: "strikeData list \<Rightarrow> wallOption \<Rightarrow> strikeData list" where
  "wallAdd entries opt =
     (let m = (if wo_strike opt \<in> set (map strike entries) then entries
               else entries @ [newStrikeData (wo_strike opt)])
      in map (\<lambda>s. if strike s = wo_strike opt then bookWallOption opt s else s) m)"

text \<open>\<open>{...s, netOI, netGamma, totalOI, putCallRatio}\<close>.\<close>

definition withMetrics :: "strikeData \<Rightarrow> wall" where
  "withMetrics s =
     \<lparr>strike = strike s, callOI = callOI s, putOI = putOI s, callVolume = callVolume s,
      putVolume = putVolume s, callGamma = callGamma s, putGamma = putGamma s,
      netOI = callOI s - putOI s,
      netGamma = callGamma s - putGamma s,
      totalOI = callOI s + putOI s,
      putCallRatio = (if callOI s > 0 then putOI s / callOI s else 0)\<rparr>"

text \<open>
  \<open>sortedByOI[Math.floor(sortedByOI.length * fraction)]?.totalOI || 0\<close>: the total open
  interest at that rank of the descending order, 0 when there is no such element.
\<close>

definition oiThreshold :: "real \<Rightarrow> wall list \<Rightarrow> real" where
  "oiThreshold fraction ws =
     (let sortedByOI = sort_key (\<lambda>w. - totalOI w) ws;
          idx = nat \<lfloor>real (length sortedByOI) * fraction\<rfloor>
      in if idx < length sortedByOI then totalOI (sortedByOI ! idx) else 0)"

record optionsWalls =
  walls :: "wall list"
  maxPain :: "real option"
  significantWalls :: "wall list"
  supportWalls :: "wall list"
  resistanceWalls :: "wall list"

text \<open>
  \<open>Math.round\<close> rounds to the nearest integer, a half upwards. \<open>Math.random\<close> is the
  environment of the mock generator: \<open>rnd k\<close> is the value of the \<open>k\<close>-th call, a number
  in \<open>[0, 1)\<close>. Each wall makes four calls, in the order of the fields of the object literal.
\<close>

definition jsRound :: "real \<Rightarrow> real" where
  "jsRound x = of_int \<lfloor>x + 1 / 2\<rfloor>"

definition mockWall :: "(nat \<Rightarrow> real) \<Rightarrow> real \<Rightarrow> nat \<Rightarrow> strikeData" where
  "mockWall rnd basePrice k =
     (let i = int k - 10;
          strike = jsRound (basePrice + of_int i * 5);
          distanceFromPrice = \<bar>strike - basePrice\<bar>;
          baseOI = 50000 * exp (- distanceFromPrice / 15);
          callSkew = (if strike > basePrice then 8 / 10 else 12 / 10);
          putSkew = (if strike < basePrice then 13 / 10 else 7 / 10)
      in \<lparr>strike = strike,
          callOI = jsRound (baseOI * callSkew * (8 / 10 + rnd (4 * k) * (4 / 10))),
          putOI = jsRound (baseOI * putSkew * (8 / 10 + rnd (4 * k + 1) * (4 / 10))),
          callVolume = jsRound (baseOI * (1 / 10) * rnd (4 * k + 2)),
          putVolume = jsRound (baseOI * (1 / 10) * rnd (4 * k + 3)),
          callGamma = baseOI * (1 / 1000) * callSkew,
          putGamma = baseOI * (1 / 1000) * putSkew\<rparr>)"

definition generateMockOptionsWalls :: "(nat \<Rightarrow> real) \<Rightarrow> real option \<Rightarrow> optionsWalls" where
  "generateMockOptionsWalls rnd currentPrice =
     (let basePrice = orElse currentPrice 595;
          wallsWithMetrics = map withMetrics (map (mockWall rnd basePrice) [0 ..< 21]);
          maxPain = calculateMaxPain wallsWithMetrics;
          threshold = oiThreshold (3 / 10) wallsWithMetrics;
          significantWalls = filter (\<lambda>w. totalOI w \<ge> threshold) wallsWithMetrics
      in \<lparr>walls = wallsWithMetrics,
          maxPain = maxPain,
          significantWalls = significantWalls,
          supportWalls = filter (\<lambda>w. strike w < basePrice \<and> putOI w > callOI w) significantWalls,
          resistanceWalls = filter (\<lambda>w. strike w > basePrice \<and> callOI w > putOI w) significantWalls\<rparr>)"

text \<open>
  \<open>optionsData\<close> is \<open>None\<close> for \<open>null\<close>. An absent or empty chain is answered with mock data.
  Max pain and the significant walls are computed on the \<open>Object.values\<close> order; only the
  returned \<open>walls\<close> are sorted by strike. A \<open>null\<close> price compares as 0.
\<close>

definition calculateOptionsWalls ::
  "(nat \<Rightarrow> real) \<Rightarrow> wallOption list option \<Rightarrow> real option \<Rightarrow> optionsWalls" where
  "calculateOptionsWalls rnd optionsData currentPrice =
     (case optionsData of
        None \<Rightarrow> generateMockOptionsWalls rnd currentPrice
      | Some [] \<Rightarrow> generateMockOptionsWalls rnd currentPrice
      | Some opts \<Rightarrow>
          let strikeData = foldl wallAdd [] opts;
              ws = map withMetrics (objectValues strike strikeData);
              maxPain = calculateMaxPain ws;
              threshold = oiThreshold (2 / 10) ws;
              significantWalls = filter (\<lambda>w. totalOI w \<ge> threshold) ws
          in \<lparr>walls = sort_key strike ws,
              maxPain = maxPain,
              significantWalls = significantWalls,
              supportWalls =
                filter (\<lambda>w. strike w < nullToZero currentPrice \<and> putOI w > callOI w) significantWalls,
              resistanceWalls =
                filter (\<lambda>w. strike w > nullToZero currentPrice \<and> callOI w > putOI w) significantWalls\<rparr>)"

text \<open>Two random sources, and a chain of two contracts at one strike.\<close>

definition rndZero :: "nat \<Rightarrow> real" where
  "rndZero k = 0"

definition rndHalf :: "nat \<Rightarrow> real" where
  "rndHalf k = 1 / 2"

definition twoContracts :: "wallOption list" where
  "twoContracts =
     [\<lparr>wo_strike = 600, wo_type = Some ''CALL'', wo_openInterest = Some 10, wo_oi = None,
       wo_volume = Some 3, wo_gamma = Some (1 / 100)\<rparr>,
      \<lparr>wo_strike = 600, wo_type = Some ''put'', wo_openInterest = None, wo_oi = Some 20,
       wo_volume = None, wo_gamma = None\<rparr>]"


section \<open>Support and resistance levels\<close>

text \<open>
  The swing points as \<open>detectSwingPoints\<close> produces them, and the two lists of \<open>swings\<close>
  that \<open>calculateSupportResistance\<close> reads (it does not read \<open>swings.current\<close>).
\<close>

record swingPoint =
  sw_index :: nat
  sw_price :: real
  sw_timestamp :: real
  sw_strength :: real

record swings =
  highs :: "swingPoint list"
  lows :: "swingPoint list"

text \<open>
  An element of \<open>allPoints\<close> has a price, a type and a strength; a cluster has a counter
  \<open>touches\<close> in addition, and a returned level a \<open>distance\<close>.
\<close>

record srPoint =
  price :: real
  type :: string
  strength :: real

record cluster = srPoint +
  touches :: nat

record level = cluster +
  distance :: real

text \<open>
  The test of \<open>clusters.find\<close>, with the tolerance 0.005. When the cluster price is 0 the
  quotient is \<open>Infinity\<close> or \<open>NaN\<close> and the comparison is false.
\<close>

definition withinTolerance :: "cluster \<Rightarrow> srPoint \<Rightarrow> bool" where
  "withinTolerance c point =
     (price c \<noteq> 0 \<and> \<bar>price c - price point\<bar> / price c < 5 / 1000)"

text \<open>The index of the cluster that \<open>clusters.find\<close> returns: the first that passes the test.\<close>

fun findCluster :: "cluster list \<Rightarrow> srPoint \<Rightarrow> nat option" where
  "findCluster [] point = None"
| "findCluster (c # cs) point =
     (if withinTolerance c point then Some 0 else map_option Suc (findCluster cs point))"

definition mergeInto :: "cluster \<Rightarrow> srPoint \<Rightarrow> cluster" where
  "mergeInto existingCluster point =
     existingCluster\<lparr>touches := touches existingCluster + 1,
                      strength := strength existingCluster + strength point,
                      price := (price existingCluster + price point) / 2\<rparr>"

definition newCluster :: "srPoint \<Rightarrow> cluster" where
  "newCluster point =
     \<lparr>price = price point, type = type point, strength = strength point, touches = 1\<rparr>"

text \<open>The body of \<open>allPoints.forEach\<close>: the found cluster is updated in place, or a new one is pushed.\<close>

definition clusterStep :: "cluster list \<Rightarrow> srPoint \<Rightarrow> cluster list" where
  "clusterStep clusters point =
     (case findCluster clusters point of
        Some i \<Rightarrow> clusters[i := mergeInto (clusters ! i) point]
      | None \<Rightarrow> clusters @ [newCluster point])"

definition clusterPoints :: "srPoint list \<Rightarrow> cluster list" where
  "clusterPoints allPoints = foldl clusterStep [] allPoints"

text \<open>
  \<open>currentPrice\<close> is a property of the component, \<open>None\<close> for \<open>null\<close>; \<open>currentPrice ? \<dots> : 0\<close>
  takes the second branch for \<open>null\<close> and for 0. The argument \<open>data\<close> is not used. The
  descending \<open>sort\<close> is stable.
\<close>

definition toLevel :: "real option \<Rightarrow> nat \<Rightarrow> cluster \<Rightarrow> level" where
  "toLevel currentPrice n c =
     \<lparr>price = price c, type = type c,
      strength = (real (touches c) * strength c) / real n,
      touches = touches c,
      distance = (case currentPrice of
                    None \<Rightarrow> 0
                  | Some cp \<Rightarrow> if cp = 0 then 0 else \<bar>(price c - cp) / cp * 100\<bar>)\<rparr>"

definition calculateSupportResistance :: "real option \<Rightarrow> 'a list \<Rightarrow> swings \<Rightarrow> level list" where
  "calculateSupportResistance currentPrice data swings =
     (let allPoints =
            map (\<lambda>h. \<lparr>price = sw_price h, type = ''resistance'', strength = sw_strength h\<rparr>) (highs swings) @
            map (\<lambda>l. \<lparr>price = sw_price l, type = ''support'', strength = sw_strength l\<rparr>) (lows swings);
          clusters = clusterPoints allPoints
      in take 8 (sort_key (\<lambda>l. - strength l) (map (toLevel currentPrice (length clusters)) clusters)))"

text \<open>
  To say which cluster a point ends up in, the index of the cluster that receives it is
  recorded: the index that \<open>find\<close> returns, or the index of the cluster pushed. Clusters are
  never removed or reordered before the final sort, so the index identifies the cluster.
\<close>

definition receivingCluster :: "cluster list \<Rightarrow> srPoint \<Rightarrow> nat" where
  "receivingCluster clusters point =
     (case findCluster clusters point of Some i \<Rightarrow> i | None \<Rightarrow> length clusters)"

fun clusterAssignments :: "cluster list \<Rightarrow> srPoint list \<Rightarrow> nat list" where
  "clusterAssignments clusters [] = []"
| "clusterAssignments clusters (point # rest) =
     receivingCluster clusters point # clusterAssignments (clusterStep clusters point) rest"

text \<open>
  Two prices are within 0.5% of each other when their distance is below 0.5% of either of
  them.
\<close>

definition withinHalfPercent :: "real \<Rightarrow> real \<Rightarrow> bool" where
  "withinHalfPercent a b = (\<bar>a - b\<bar> < (5 / 1000) * a \<and> \<bar>a - b\<bar> < (5 / 1000) * b)"

definition resistanceAt :: "real \<Rightarrow> srPoint" where
  "resistanceAt p = \<lparr>price = p, type = ''resistance'', strength = 1\<rparr>"

definition threeSwings :: "srPoint list" where
  "threeSwings = [resistanceAt 1000, resistanceAt 1004, resistanceAt 1008]"


section \<open>Volume profile\<close>

text \<open>
  A bar as \<open>calculateVolumeProfile\<close> reads it: the close, and the volume, which is \<open>None\<close>
  when the field is absent. A bin of the profile.
\<close>

record priceBar =
  close :: real
  bar_volume :: "real option"

record bin =
  priceLevel :: real
  volume :: real
  priceLow :: real
  priceHigh :: real

text \<open>
  \<open>Math.max()\<close> and \<open>Math.min()\<close> of no argument are \<open>-Infinity\<close> and \<open>Infinity\<close>; the value
  area can be empty, so the two bounds of the value area are numbers or infinities.
\<close>

datatype jsnum = Finite real | PosInfinity | NegInfinity

definition jsMax :: "real list \<Rightarrow> jsnum" where
  "jsMax xs = (case xs of [] \<Rightarrow> NegInfinity | x # rest \<Rightarrow> Finite (foldl max x rest))"

definition jsMin :: "real list \<Rightarrow> jsnum" where
  "jsMin xs = (case xs of [] \<Rightarrow> PosInfinity | x # rest \<Rightarrow> Finite (foldl min x rest))"

record volumeProfile =
  profile :: "bin list"
  poc :: "bin option"
  vah :: "jsnum option"
  val :: "jsnum option"

text \<open>
  \<open>Math.min(...prices)\<close> and \<open>Math.max(...prices)\<close> on the closes of a non-empty series, and
  the volumes \<open>d.volume || 1000000\<close>.
\<close>

definition minPrice :: "priceBar list \<Rightarrow> real" where
  "minPrice data = foldl min (close (hd data)) (map close (tl data))"

definition maxPrice :: "priceBar list \<Rightarrow> real" where
  "maxPrice data = foldl max (close (hd data)) (map close (tl data))"

definition barVolume :: "priceBar \<Rightarrow> real" where
  "barVolume d = orElse (bar_volume d) 1000000"

definition numBins :: nat where
  "numBins = 50"

definition binSize :: "(real \<Rightarrow> real) \<Rightarrow> priceBar list \<Rightarrow> real" where
  "binSize fl data = fl (fl (maxPrice data - minPrice data) / real numBins)"

text \<open>The inner \<open>data.reduce\<close>: the volume of the bars whose close lies in \<open>[binLow, binHigh)\<close>;
  \<open>volumes[idx] || 0\<close> is the volume itself.\<close>

definition binVolumeOf :: "(real \<Rightarrow> real) \<Rightarrow> priceBar list \<Rightarrow> real \<Rightarrow> real \<Rightarrow> real" where
  "binVolumeOf fl data binLow binHigh =
     foldl (\<lambda>sum d. if close d \<ge> binLow \<and> close d < binHigh
                      then fl (sum + orElse (Some (barVolume d)) 0) else sum) 0 data"

text \<open>
  One pass of the loop over the bins. \<open>binLow\<close> and \<open>binHigh\<close> are rounded separately, so
  the upper bound of one bin need not be the lower bound of the next, and the upper bound
  of the last bin need not be the maximum close.
\<close>

definition makeBin :: "(real \<Rightarrow> real) \<Rightarrow> priceBar list \<Rightarrow> nat \<Rightarrow> bin" where
  "makeBin fl data i =
     (let binLow = fl (minPrice data + fl (real i * binSize fl data));
          binHigh = fl (binLow + binSize fl data)
      in \<lparr>priceLevel = fl (fl (binLow + binHigh) / 2),
          volume = binVolumeOf fl data binLow binHigh,
          priceLow = binLow,
          priceHigh = binHigh\<rparr>)"

text \<open>The loop over the bins sorted by volume, which stops at the first node found with
  the accumulated volume at or above the value volume.\<close>

fun accumulateValueArea :: "(real \<Rightarrow> real) \<Rightarrow> real \<Rightarrow> real \<Rightarrow> bin list \<Rightarrow> bin list" where
  "accumulateValueArea fl valueVolume accumulatedVolume [] = []"
| "accumulateValueArea fl valueVolume accumulatedVolume (node # rest) =
     (if accumulatedVolume < valueVolume
      then node # accumulateValueArea fl valueVolume (fl (accumulatedVolume + volume node)) rest
      else [])"

text \<open>
  The descending \<open>sort\<close> is stable, and its comparator \<open>b.volume - a.volume\<close> has the sign
  of the difference of the two volumes.
\<close>

definition calculateVolumeProfile :: "(real \<Rightarrow> real) \<Rightarrow> priceBar list \<Rightarrow> volumeProfile" where
  "calculateVolumeProfile fl data =
     (if data = [] then \<lparr>profile = [], poc = None, vah = None, val = None\<rparr>
      else
        let profile = map (makeBin fl data) [0 ..< numBins];
            poc = foldl (\<lambda>max curr. if volume curr > volume max then curr else max)
                    (hd profile) profile;
            totalVolume = foldl (\<lambda>sum p. fl (sum + volume p)) 0 profile;
            valueVolume = fl (totalVolume * fl (7 / 10));
            sortedByVolume = sort_key (\<lambda>b. - volume b) profile;
            valueArea = accumulateValueArea fl valueVolume 0 sortedByVolume
        in \<lparr>profile = profile,
            poc = Some poc,
            vah = Some (jsMax (map priceLevel valueArea)),
            val = Some (jsMin (map priceLevel valueArea))\<rparr>)"

text \<open>The total volume of the input bars.\<close>

definition totalInputVolume :: "priceBar list \<Rightarrow> real" where
  "totalInputVolume data = (\<Sum>d\<leftarrow>data. barVolume d)"

definition oneBar :: "priceBar list" where
  "oneBar = [\<lparr>close = 100, bar_volume = Some 5\<rparr>]"

definition twoBars :: "priceBar list" where
  "twoBars = [\<lparr>close = 100, bar_volume = Some 1\<rparr>, \<lparr>close = 150, bar_volume = Some 2\<rparr>]"


section \<open>Properties\<close>

subsection \<open>Max pain\<close>

lemma totalPain_fold:
  "foldl (painStep s) a ws = a + totalPainSpec ws s"
  by (induction ws arbitrary: a) (auto simp: painStep_def totalPainSpec_def Let_def)

lemma totalPainAt_spec: "totalPainAt ws c = totalPainSpec ws c"
  by (simp add: totalPainAt_def totalPain_fold)

lemma maxPain_fold_inv: "maxPainInv W ws (foldl (maxPainStep W) (None, None) ws)"
proof (induction ws rule: rev_induct)
  case Nil
  show ?case by (simp add: maxPainInv_def)
next
  case (snoc w ws)
  show ?case
  proof (cases "ws = []")
    case True
    then show ?thesis
      by (simp add: maxPainInv_def maxPainStep_def belowMinPain_def Let_def)
  next
    case False
    with snoc obtain c where acc: "foldl (maxPainStep W) (None, None) ws = (Some c, Some (totalPainAt W c))"
      and c: "c \<in> strike ` set ws"
      and best: "\<forall>v\<in>set ws. totalPainAt W c \<le> totalPainAt W (strike v)"
      by (auto simp: maxPainInv_def)
    show ?thesis
    proof (cases "totalPainAt W (strike w) < totalPainAt W c")
      case True
      with acc have step: "foldl (maxPainStep W) (None, None) (ws @ [w]) =
          (Some (strike w), Some (totalPainAt W (strike w)))"
        by (simp add: maxPainStep_def belowMinPain_def Let_def)
      from True best have "\<forall>v\<in>set (ws @ [w]). totalPainAt W (strike w) \<le> totalPainAt W (strike v)"
        by fastforce
      with step show ?thesis
        unfolding maxPainInv_def by simp
    next
      case False
      with acc have step: "foldl (maxPainStep W) (None, None) (ws @ [w]) =
          (Some c, Some (totalPainAt W c))"
        by (simp add: maxPainStep_def belowMinPain_def Let_def)
      from False best have "\<forall>v\<in>set (ws @ [w]). totalPainAt W c \<le> totalPainAt W (strike v)"
        by fastforce
      with step c show ?thesis
        unfolding maxPainInv_def by simp
    qed
  qed
qed

text \<open>
  C3. The max-pain search returns a strike of the collection whose total pain, the sum over
  the strikes below it of call OI times distance plus the sum over the strikes above it of
  put OI times distance, is minimal among all candidate strikes; on an empty collection
  it returns \<open>null\<close>. On the three-strike chain the pains are 125, 100 and 125, and the
  search returns 100, the minimum of the exhaustive evaluation.
\<close>

theorem calculateMaxPain_minimises:
  "(ws = [] \<longrightarrow> calculateMaxPain ws = None) \<and>
   (ws \<noteq> [] \<longrightarrow>
      (\<exists>c. calculateMaxPain ws = Some c \<and> c \<in> strike ` set ws \<and>
           (\<forall>w\<in>set ws. totalPainSpec ws c \<le> totalPainSpec ws (strike w)))) \<and>
   map (totalPainSpec chain3) [95, 100, 105] = [125, 100, 125] \<and>
   calculateMaxPain chain3 = Some 100"
proof (intro conjI impI)
  assume "ws = []"
  then show "calculateMaxPain ws = None" by (simp add: calculateMaxPain_def)
next
  assume "ws \<noteq> []"
  with maxPain_fold_inv [of ws ws]
  show "\<exists>c. calculateMaxPain ws = Some c \<and> c \<in> strike ` set ws \<and>
           (\<forall>w\<in>set ws. totalPainSpec ws c \<le> totalPainSpec ws (strike w))"
    by (auto simp: maxPainInv_def calculateMaxPain_def totalPainAt_spec)
next
  show "map (totalPainSpec chain3) [95, 100, 105] = [125, 100, 125]"
    by (simp add: totalPainSpec_def chain3_def mkWall_def)
next
  show "calculateMaxPain chain3 = Some 100"
    by (simp add: calculateMaxPain_def maxPainStep_def belowMinPain_def totalPainAt_def
        painStep_def chain3_def mkWall_def Let_def)
qed

theorem calculateMaxPain_minimises_witness:
  "chain3 \<noteq> [] \<and> calculateMaxPain chain3 = Some 100 \<and>
   totalPainSpec chain3 100 \<le> totalPainSpec chain3 95 \<and>
   totalPainSpec chain3 100 \<le> totalPainSpec chain3 105"
  using calculateMaxPain_minimises [of chain3]
  by (auto simp: chain3_def mkWall_def)

subsection \<open>Relative strength index\<close>

lemma rsi_fold_losses:
  "snd (foldl (rsiStep data) acc is) = snd acc + (\<Sum>i\<leftarrow>is. max 0 (data ! (i - 1) - data ! i))"
  by (induction "is" arbitrary: acc) (auto simp: rsiStep_def Let_def)

lemma rsi_fold_gains_nonneg:
  "0 \<le> fst acc \<Longrightarrow> 0 \<le> fst (foldl (rsiStep data) acc is)"
  by (induction "is" arbitrary: acc) (auto simp: rsiStep_def Let_def)

lemma rsi_losses: 
  "snd (foldl (rsiStep data) (0, 0) [length data - period ..< length data]) = summedLosses data period"
  by (simp add: rsi_fold_losses summedLosses_def)

lemma summedLosses_nonneg: "0 \<le> summedLosses data period"
  unfolding summedLosses_def by (rule sum_list_nonneg) auto

lemma rsi_formula_range:
  assumes "0 \<le> g" "0 < l"
  shows "0 \<le> 100 - 100 / (1 + g / l)" "100 - 100 / (1 + g / l) < (100::real)"
proof -
  from assms have "0 \<le> g / l" by simp
  then have pos: "1 \<le> 1 + g / l" by simp
  then have "100 / (1 + g / l) \<le> 100 / 1"
    by (intro divide_left_mono) auto
  then show "0 \<le> 100 - 100 / (1 + g / l)" by simp
  from pos have "0 < 100 / (1 + g / l)" by simp
  then show "100 - 100 / (1 + g / l) < 100" by simp
qed

lemma calculateRSI_long:
  assumes "0 < period" "period + 1 \<le> length data"
  shows "calculateRSI data period =
     (if summedLosses data period = 0 then Some 100
      else Some (100 - 100 / (1 + fst (foldl (rsiStep data) (0, 0) [length data - period ..< length data]) / summedLosses data period)))"
  using assms by (simp add: calculateRSI_def Let_def rsi_losses)

text \<open>
  C2, as amended. For every price series and positive period (14 by default), the RSI is a
  number in [0, 100]; a series of fewer than \<open>period + 1\<close> points gives exactly 50; and on a
  series of at least \<open>period + 1\<close> points the RSI is exactly 100 if and only if the summed
  losses over the last \<open>period\<close> deltas are 0.
\<close>

theorem calculateRSI_range_and_limits:
  assumes "0 < period"
  shows "(\<exists>r. calculateRSI data period = Some r \<and> 0 \<le> r \<and> r \<le> 100) \<and>
         (length data < period + 1 \<longrightarrow> calculateRSI data period = Some 50) \<and>
         (period + 1 \<le> length data \<longrightarrow>
            (calculateRSI data period = Some 100 \<longleftrightarrow> summedLosses data period = 0))"
proof (cases "length data < period + 1")
  case True
  then show ?thesis by (simp add: calculateRSI_def)
next
  case False
  then have long: "period + 1 \<le> length data" by simp
  let ?g = "fst (foldl (rsiStep data) (0, 0) [length data - period ..< length data])"
  let ?l = "summedLosses data period"
  have g: "0 \<le> ?g" by (rule rsi_fold_gains_nonneg) simp
  show ?thesis
  proof (cases "?l = 0")
    case True
    with long assms show ?thesis by (simp add: calculateRSI_long)
  next
    case nz: False
    with summedLosses_nonneg [of data period] have l: "0 < ?l" by simp
    from rsi_formula_range [OF g l] nz long assms show ?thesis
      by (simp add: calculateRSI_long)
  qed
qed

theorem calculateRSI_range_and_limits_witness:
  "(0::nat) < 14 \<and> 14 + 1 \<le> length rising15 \<and> summedLosses rising15 14 = 0 \<and>
   calculateRSI rising15 14 = Some 100 \<and> length [1, 2 :: real] < 14 + 1 \<and>
   calculateRSI [1, 2] 14 = Some 50"
  using calculateRSI_range_and_limits [of 14 rising15] calculateRSI_range_and_limits [of 14 "[1, 2]"]
  by (simp add: rising15_def summedLosses_def upt_rec nth_Cons')

text \<open>
  C2, as stated, fails: 50 is not reserved for short series. Fifteen points alternating
  between 1 and 2 have equal gains and losses over the last 14 deltas, so \<open>rs = 1\<close> and the
  RSI is \<open>100 - 100 / 2 = 50\<close>, although the series has \<open>period + 1\<close> points.
\<close>

theorem calculateRSI_fifty_counterexample:
  "calculateRSI alternating15 14 = Some 50 \<and> \<not> length alternating15 < 14 + 1"
  by (simp add: calculateRSI_def alternating15_def rsiStep_def Let_def upt_rec nth_Cons')


subsection \<open>Dealer gamma flip\<close>

lemma signsDiffer_product: "signsDiffer a b \<longleftrightarrow> a * b < 0"
  by (auto simp: signsDiffer_def mult_less_0_iff)

lemma signChangeAt_Cons:
  "signChangeAt (a # ss) (Suc i) = signChangeAt ss i"
  by (simp add: signChangeAt_def)

lemma gammaFlipLoop_None:
  "gammaFlipLoop ss = None \<longleftrightarrow> (\<forall>i. \<not> signChangeAt ss i)"
proof (induction ss rule: gammaFlipLoop.induct)
  case (1 a b rest)
  show ?case
  proof (cases "ds_netGamma a * ds_netGamma b < 0")
    case True
    then have "signChangeAt (a # b # rest) 0"
      by (simp add: signChangeAt_def signsDiffer_product)
    with True show ?thesis by auto
  next
    case False
    then have zero: "\<not> signChangeAt (a # b # rest) 0"
      by (simp add: signChangeAt_def signsDiffer_product)
    have "(\<forall>i. \<not> signChangeAt (a # b # rest) i) \<longleftrightarrow> (\<forall>i. \<not> signChangeAt (b # rest) i)"
    proof
      assume h: "\<forall>i. \<not> signChangeAt (a # b # rest) i"
      show "\<forall>i. \<not> signChangeAt (b # rest) i"
      proof
        fix i
        from h have "\<not> signChangeAt (a # b # rest) (Suc i)" by blast
        then show "\<not> signChangeAt (b # rest) i" by (simp add: signChangeAt_Cons)
      qed
    next
      assume h: "\<forall>i. \<not> signChangeAt (b # rest) i"
      show "\<forall>i. \<not> signChangeAt (a # b # rest) i"
      proof
        fix i
        show "\<not> signChangeAt (a # b # rest) i"
        proof (cases i)
          case 0
          with zero show ?thesis by simp
        next
          case (Suc k)
          with h show ?thesis by (simp add: signChangeAt_Cons)
        qed
      qed
    qed
    with 1 False show ?thesis by simp
  qed
next
  case (2 a)
  show ?case by (simp add: signChangeAt_def)
next
  case 3
  show ?case by (simp add: signChangeAt_def)
qed

lemma gammaFlipLoop_first:
  assumes "signChangeAt ss i" "\<forall>j<i. \<not> signChangeAt ss j"
  shows "gammaFlipLoop ss = Some ((ds_strike (ss ! i) + ds_strike (ss ! (i + 1))) / 2)"
  using assms
proof (induction ss arbitrary: i rule: gammaFlipLoop.induct)
  case (1 a b rest)
  show ?case
  proof (cases i)
    case 0
    with 1(2) have "ds_netGamma a * ds_netGamma b < 0"
      by (simp add: signChangeAt_def signsDiffer_product)
    with 0 show ?thesis by simp
  next
    case (Suc k)
    with 1(3) have "\<not> signChangeAt (a # b # rest) 0" by blast
    then have neg: "\<not> ds_netGamma a * ds_netGamma b < 0"
      by (simp add: signChangeAt_def signsDiffer_product)
    from 1(2) Suc have k: "signChangeAt (b # rest) k" by (simp add: signChangeAt_Cons)
    have first: "\<forall>j<k. \<not> signChangeAt (b # rest) j"
    proof (intro allI impI)
      fix j assume "j < k"
      with Suc have "Suc j < i" by simp
      with 1(3) have "\<not> signChangeAt (a # b # rest) (Suc j)" by blast
      then show "\<not> signChangeAt (b # rest) j" by (simp add: signChangeAt_Cons)
    qed
    from 1(1) [OF neg k first] neg Suc show ?thesis by simp
  qed
next
  case (2 a)
  then show ?case by (simp add: signChangeAt_def)
next
  case 3
  then show ?case by (simp add: signChangeAt_def)
qed

lemma dealerAdd_keys:
  "map ds_strike (dealerAdd m opt) =
     (if opt_strike opt \<in> set (map ds_strike m) then map ds_strike m
      else map ds_strike m @ [opt_strike opt])"
  by (auto simp: dealerAdd_def hasStrike_def newDealerStrike_def bookOption_def Let_def comp_def)

lemma dealer_fold_keys:
  "distinct (map ds_strike m) \<Longrightarrow>
   distinct (map ds_strike (foldl dealerAdd m opts)) \<and>
   set (map ds_strike (foldl dealerAdd m opts)) = set (map ds_strike m) \<union> opt_strike ` set opts"
proof (induction opts arbitrary: m)
  case Nil
  then show ?case by simp
next
  case (Cons opt opts)
  from Cons.prems have d: "distinct (map ds_strike (dealerAdd m opt))"
    by (simp add: dealerAdd_keys)
  have s: "set (map ds_strike (dealerAdd m opt)) = insert (opt_strike opt) (set (map ds_strike m))"
    by (auto simp: dealerAdd_keys)
  from Cons.IH [OF d] s show ?case by auto
qed

lemma mset_objectValues: "mset (objectValues key es) = mset es"
  by (simp add: objectValues_def)

lemma setNet_key: "map ds_strike (map setNet m) = map ds_strike m"
  by (simp add: setNet_def comp_def)

lemma sorted_strikes:
  assumes "distinct (map ds_strike m)"
  shows "sorted_wrt (<) (map ds_strike (sort_key ds_strike (objectValues ds_strike m)))"
    and "set (map ds_strike (sort_key ds_strike (objectValues ds_strike m))) = set (map ds_strike m)"
    and "set (sort_key ds_strike (objectValues ds_strike m)) = set m"
proof -
  let ?r = "sort_key ds_strike (objectValues ds_strike m)"
  have m: "mset ?r = mset m" by (simp add: mset_objectValues)
  then have "mset (map ds_strike ?r) = mset (map ds_strike m)" by (metis mset_map)
  with assms have "distinct (map ds_strike ?r)" by (metis mset_eq_imp_distinct_iff)
  moreover have "sorted (map ds_strike ?r)" by (rule sorted_sort_key)
  ultimately show "sorted_wrt (<) (map ds_strike ?r)" by (simp add: strict_sorted_iff)
  from m show "set ?r = set m" by (metis set_mset_mset)
  then show "set (map ds_strike ?r) = set (map ds_strike m)" by simp
qed


lemma bookOption_net:
  "ds_callGamma (bookOption opt s) + ds_putGamma (bookOption opt s) =
     ds_callGamma s + ds_putGamma s + opt_gamma opt * (- (opt_oi opt * 100))"
  "ds_strike (bookOption opt s) = ds_strike s"
  by (simp_all add: bookOption_def Let_def)

lemma dealerAdd_cases:
  assumes "s' \<in> set (dealerAdd m opt)"
  shows "(s' \<in> set m \<and> ds_strike s' \<noteq> opt_strike opt) \<or>
         (\<exists>s\<in>set m. ds_strike s = opt_strike opt \<and> s' = bookOption opt s) \<or>
         (opt_strike opt \<notin> set (map ds_strike m) \<and> s' = bookOption opt (newDealerStrike (opt_strike opt)))"
  using assms
  by (auto simp: dealerAdd_def hasStrike_def Let_def newDealerStrike_def split: if_splits)

lemma dealerNetGamma_snoc:
  "dealerNetGamma (opts @ [opt]) k =
     dealerNetGamma opts k + (if opt_strike opt = k then opt_gamma opt * (- (opt_oi opt * 100)) else 0)"
  by (simp add: dealerNetGamma_def)

lemma dealerNetGamma_absent:
  "k \<notin> opt_strike ` set opts \<Longrightarrow> dealerNetGamma opts k = 0"
proof -
  assume "k \<notin> opt_strike ` set opts"
  then have "filter (\<lambda>opt. opt_strike opt = k) opts = []"
    by (auto simp: filter_empty_conv)
  then show ?thesis by (simp add: dealerNetGamma_def)
qed

lemma dealer_fold_net:
  "\<forall>s\<in>set (foldl dealerAdd [] opts).
      ds_callGamma s + ds_putGamma s = dealerNetGamma opts (ds_strike s)"
proof (induction opts rule: rev_induct)
  case Nil
  show ?case by simp
next
  case (snoc opt opts)
  let ?m = "foldl dealerAdd [] opts"
  have keys: "set (map ds_strike ?m) = opt_strike ` set opts"
    using dealer_fold_keys [of "[]" opts] by simp
  show ?case
  proof
    fix s'
    assume "s' \<in> set (foldl dealerAdd [] (opts @ [opt]))"
    then have "s' \<in> set (dealerAdd ?m opt)" by simp
    from dealerAdd_cases [OF this]
    show "ds_callGamma s' + ds_putGamma s' = dealerNetGamma (opts @ [opt]) (ds_strike s')"
    proof (elim disjE conjE bexE)
      assume "s' \<in> set ?m" "ds_strike s' \<noteq> opt_strike opt"
      with snoc show ?thesis by (simp add: dealerNetGamma_snoc)
    next
      fix s assume "s \<in> set ?m" "ds_strike s = opt_strike opt" "s' = bookOption opt s"
      with snoc show ?thesis by (simp add: dealerNetGamma_snoc bookOption_net)
    next
      assume "opt_strike opt \<notin> set (map ds_strike ?m)"
        and s': "s' = bookOption opt (newDealerStrike (opt_strike opt))"
      with keys have "dealerNetGamma opts (opt_strike opt) = 0"
        by (intro dealerNetGamma_absent) simp
      with s' show ?thesis
        by (simp add: dealerNetGamma_snoc bookOption_net newDealerStrike_def)
    qed
  qed
qed

lemma calculateDealerMetrics_Some:
  assumes "calculateDealerMetrics opts spot = Some m"
  shows "strikes m = sort_key ds_strike (objectValues ds_strike (map setNet (foldl dealerAdd [] opts)))"
    and "gammaFlipPoint m = gammaFlipLoop (strikes m)"
    and "opts \<noteq> []" and "spot \<noteq> None" and "spot \<noteq> Some 0"
  using assms by (auto simp: calculateDealerMetrics_def Let_def split: if_splits)

text \<open>
  C4. For every non-empty options chain and usable spot price, dealer metrics exist; their
  strikes are the distinct strikes of the chain in strictly ascending order, each with the
  dealer net gamma of its contracts; the gamma-flip point is the mean of the two strikes of
  the first adjacent pair whose net gammas have different signs (one negative, one
  positive), and it is \<open>null\<close>, not zero, when no adjacent pair changes sign. In particular,
  when the only sign change lies between the strikes 500 and 505 the flip point is 502.5.
\<close>

theorem gammaFlipPoint_first_sign_change:
  "(opts \<noteq> [] \<and> spot \<noteq> None \<and> spot \<noteq> Some 0 \<longrightarrow> calculateDealerMetrics opts spot \<noteq> None) \<and>
   (calculateDealerMetrics opts spot = Some m \<longrightarrow>
      sorted_wrt (<) (map ds_strike (strikes m)) \<and>
      set (map ds_strike (strikes m)) = opt_strike ` set opts \<and>
      (\<forall>s\<in>set (strikes m). ds_netGamma s = dealerNetGamma opts (ds_strike s)) \<and>
      (\<forall>i. signChangeAt (strikes m) i \<and> (\<forall>j<i. \<not> signChangeAt (strikes m) j) \<longrightarrow>
           gammaFlipPoint m = Some ((ds_strike (strikes m ! i) + ds_strike (strikes m ! (i + 1))) / 2)) \<and>
      ((\<forall>i. \<not> signChangeAt (strikes m) i) \<longrightarrow> gammaFlipPoint m = None) \<and>
      (\<forall>i. signChangeAt (strikes m) i \<and> (\<forall>j. j \<noteq> i \<longrightarrow> \<not> signChangeAt (strikes m) j) \<and>
           ds_strike (strikes m ! i) = 500 \<and> ds_strike (strikes m ! (i + 1)) = 505 \<longrightarrow>
           gammaFlipPoint m = Some (5025 / 10)))"
proof (rule conjI)
  show "opts \<noteq> [] \<and> spot \<noteq> None \<and> spot \<noteq> Some 0 \<longrightarrow> calculateDealerMetrics opts spot \<noteq> None"
    by (simp add: calculateDealerMetrics_def Let_def)
next
  show "calculateDealerMetrics opts spot = Some m \<longrightarrow>
      sorted_wrt (<) (map ds_strike (strikes m)) \<and>
      set (map ds_strike (strikes m)) = opt_strike ` set opts \<and>
      (\<forall>s\<in>set (strikes m). ds_netGamma s = dealerNetGamma opts (ds_strike s)) \<and>
      (\<forall>i. signChangeAt (strikes m) i \<and> (\<forall>j<i. \<not> signChangeAt (strikes m) j) \<longrightarrow>
           gammaFlipPoint m = Some ((ds_strike (strikes m ! i) + ds_strike (strikes m ! (i + 1))) / 2)) \<and>
      ((\<forall>i. \<not> signChangeAt (strikes m) i) \<longrightarrow> gammaFlipPoint m = None) \<and>
      (\<forall>i. signChangeAt (strikes m) i \<and> (\<forall>j. j \<noteq> i \<longrightarrow> \<not> signChangeAt (strikes m) j) \<and>
           ds_strike (strikes m ! i) = 500 \<and> ds_strike (strikes m ! (i + 1)) = 505 \<longrightarrow>
           gammaFlipPoint m = Some (5025 / 10))"
  proof
    assume res: "calculateDealerMetrics opts spot = Some m"
    let ?map = "map setNet (foldl dealerAdd [] opts)"
    note facts = calculateDealerMetrics_Some [OF res]
    have keys: "distinct (map ds_strike ?map)" "set (map ds_strike ?map) = opt_strike ` set opts"
      using dealer_fold_keys [of "[]" opts] by (simp_all add: setNet_key del: map_map)
    have first: "\<forall>i. signChangeAt (strikes m) i \<and> (\<forall>j<i. \<not> signChangeAt (strikes m) j) \<longrightarrow>
           gammaFlipPoint m = Some ((ds_strike (strikes m ! i) + ds_strike (strikes m ! (i + 1))) / 2)"
      using facts(2) by (auto simp: gammaFlipLoop_first)
    show "sorted_wrt (<) (map ds_strike (strikes m)) \<and>
      set (map ds_strike (strikes m)) = opt_strike ` set opts \<and>
      (\<forall>s\<in>set (strikes m). ds_netGamma s = dealerNetGamma opts (ds_strike s)) \<and>
      (\<forall>i. signChangeAt (strikes m) i \<and> (\<forall>j<i. \<not> signChangeAt (strikes m) j) \<longrightarrow>
           gammaFlipPoint m = Some ((ds_strike (strikes m ! i) + ds_strike (strikes m ! (i + 1))) / 2)) \<and>
      ((\<forall>i. \<not> signChangeAt (strikes m) i) \<longrightarrow> gammaFlipPoint m = None) \<and>
      (\<forall>i. signChangeAt (strikes m) i \<and> (\<forall>j. j \<noteq> i \<longrightarrow> \<not> signChangeAt (strikes m) j) \<and>
           ds_strike (strikes m ! i) = 500 \<and> ds_strike (strikes m ! (i + 1)) = 505 \<longrightarrow>
           gammaFlipPoint m = Some (5025 / 10))"
    proof (intro conjI)
      from sorted_strikes(1) [OF keys(1)] facts(1)
      show "sorted_wrt (<) (map ds_strike (strikes m))" by simp
      from sorted_strikes(2) [OF keys(1)] facts(1) keys(2)
      show "set (map ds_strike (strikes m)) = opt_strike ` set opts" by simp
      show "\<forall>s\<in>set (strikes m). ds_netGamma s = dealerNetGamma opts (ds_strike s)"
      proof
        fix s assume "s \<in> set (strikes m)"
        with sorted_strikes(3) [OF keys(1)] facts(1) have "s \<in> set ?map" by simp
        then obtain s0 where s0: "s0 \<in> set (foldl dealerAdd [] opts)" and s: "s = setNet s0" by auto
        from dealer_fold_net s0 have "ds_callGamma s0 + ds_putGamma s0 = dealerNetGamma opts (ds_strike s0)"
          by blast
        with s show "ds_netGamma s = dealerNetGamma opts (ds_strike s)" by (simp add: setNet_def)
      qed
      from first show "\<forall>i. signChangeAt (strikes m) i \<and> (\<forall>j<i. \<not> signChangeAt (strikes m) j) \<longrightarrow>
           gammaFlipPoint m = Some ((ds_strike (strikes m ! i) + ds_strike (strikes m ! (i + 1))) / 2)" .
      show "(\<forall>i. \<not> signChangeAt (strikes m) i) \<longrightarrow> gammaFlipPoint m = None"
        using facts(2) by (simp add: gammaFlipLoop_None)
      show "\<forall>i. signChangeAt (strikes m) i \<and> (\<forall>j. j \<noteq> i \<longrightarrow> \<not> signChangeAt (strikes m) j) \<and>
           ds_strike (strikes m ! i) = 500 \<and> ds_strike (strikes m ! (i + 1)) = 505 \<longrightarrow>
           gammaFlipPoint m = Some (5025 / 10)"
      proof (intro allI impI)
        fix i
        assume h: "signChangeAt (strikes m) i \<and> (\<forall>j. j \<noteq> i \<longrightarrow> \<not> signChangeAt (strikes m) j) \<and>
           ds_strike (strikes m ! i) = 500 \<and> ds_strike (strikes m ! (i + 1)) = 505"
        then have "signChangeAt (strikes m) i \<and> (\<forall>j<i. \<not> signChangeAt (strikes m) j)" by auto
        with first have "gammaFlipPoint m = Some ((ds_strike (strikes m ! i) + ds_strike (strikes m ! (i + 1))) / 2)"
          by blast
        with h show "gammaFlipPoint m = Some (5025 / 10)" by simp
      qed
    qed
  qed
qed

theorem gammaFlipPoint_first_sign_change_witness:
  "ladder \<noteq> [] \<and> Some (500::real) \<noteq> None \<and> Some (500::real) \<noteq> Some 0 \<and>
   map_option (\<lambda>m. map ds_strike (strikes m)) (calculateDealerMetrics ladder (Some 500)) =
     Some [495, 500, 505, 510] \<and>
   map_option (\<lambda>m. map ds_netGamma (strikes m)) (calculateDealerMetrics ladder (Some 500)) =
     Some [- 1000, - 3000, 2000, 3000] \<and>
   map_option gammaFlipPoint (calculateDealerMetrics ladder (Some 500)) = Some (Some (5025 / 10)) \<and>
   map_option gammaFlipPoint (calculateDealerMetrics flatLadder (Some 500)) = Some None"
proof -
  note defs = calculateDealerMetrics_def ladder_def flatLadder_def mkOption_def dealerAdd_def
    hasStrike_def newDealerStrike_def bookOption_def setNet_def objectValues_def isArrayIndex_def Let_def
  have ss0: "map_option (\<lambda>m. map ds_strike (strikes m)) (calculateDealerMetrics ladder (Some 500)) =
     Some [495, 500, 505, 510]"
    by (simp add: defs)
  have ng0: "map_option (\<lambda>m. map ds_netGamma (strikes m)) (calculateDealerMetrics ladder (Some 500)) =
     Some [- 1000, - 3000, 2000, 3000]"
    by (simp add: defs)
  have ngf0: "map_option (\<lambda>m. map ds_netGamma (strikes m)) (calculateDealerMetrics flatLadder (Some 500)) =
     Some [- 1000, - 2000]"
    by (simp add: defs)
  from ss0 obtain M where ev: "calculateDealerMetrics ladder (Some 500) = Some M"
    by auto
  from ngf0 obtain F where evf: "calculateDealerMetrics flatLadder (Some 500) = Some F"
    by auto
  from ss0 ev have ss: "map ds_strike (strikes M) = [495, 500, 505, 510]" by simp
  from ng0 ev have ng: "map ds_netGamma (strikes M) = [- 1000, - 3000, 2000, 3000]" by simp
  from ngf0 evf have ngf: "map ds_netGamma (strikes F) = [- 1000, - 2000]" by simp
  from ss have "length (map ds_strike (strikes M)) = length [495, 500, 505, 510 :: real]"
    by (rule arg_cong)
  then have len: "length (strikes M) = 4" by simp
  from ngf have "length (map ds_netGamma (strikes F)) = length [- 1000, - 2000 :: real]"
    by (rule arg_cong)
  then have lenf: "length (strikes F) = 2" by simp
  have ng_nth: "ds_netGamma (strikes M ! k) = [- 1000, - 3000, 2000, 3000] ! k" if "k < 4" for k
    using ng len that by (metis nth_map)
  have ss_nth: "ds_strike (strikes M ! k) = [495, 500, 505, 510] ! k" if "k < 4" for k
    using ss len that by (metis nth_map)
  have change: "signChangeAt (strikes M) 1"
    by (simp add: signChangeAt_def len ng_nth signsDiffer_def)
  have only: "\<not> signChangeAt (strikes M) j" if neq: "j \<noteq> 1" for j
  proof -
    from neq consider "j = 0" | "j = 2" | "3 \<le> j" by linarith
    then show ?thesis
      by cases (simp_all add: signChangeAt_def len ng_nth signsDiffer_def)
  qed
  have at: "ds_strike (strikes M ! 1) = 500" "ds_strike (strikes M ! (1 + 1)) = 505"
    by (simp_all add: ss_nth)
  from gammaFlipPoint_first_sign_change [of ladder "Some 500" M] ev change only at
  have flip: "gammaFlipPoint M = Some (5025 / 10)"
    by blast
  have ngf_nth: "ds_netGamma (strikes F ! k) = [- 1000, - 2000] ! k" if "k < 2" for k
    using ngf lenf that by (metis nth_map)
  have none: "\<not> signChangeAt (strikes F) j" for j
  proof (cases "j = 0")
    case True
    then show ?thesis by (simp add: signChangeAt_def lenf ngf_nth signsDiffer_def)
  next
    case False
    then show ?thesis by (simp add: signChangeAt_def lenf)
  qed
  from gammaFlipPoint_first_sign_change [of flatLadder "Some 500" F] evf none
  have flat: "gammaFlipPoint F = None"
    by blast
  have "ladder \<noteq> []" by (simp add: ladder_def)
  with ev ss ng flip evf flat show ?thesis by simp
qed


subsection \<open>Sentiment scorer\<close>

lemma addBullish_inv: "0 \<le> w \<Longrightarrow> scoreInv st \<Longrightarrow> scoreInv (addBullish f w st)"
  by (simp add: scoreInv_def addBullish_def summedWeight_def)

lemma addBearish_inv: "0 \<le> w \<Longrightarrow> scoreInv st \<Longrightarrow> scoreInv (addBearish f w st)"
  by (simp add: scoreInv_def addBearish_def summedWeight_def)

lemma add_total:
  "st_bull (addBullish f w st) + st_bear (addBullish f w st) = st_bull st + st_bear st + w"
  "st_bull (addBearish f w st) + st_bear (addBearish f w st) = st_bull st + st_bear st + w"
  by (simp_all add: addBullish_def addBearish_def)

lemma rules_inv:
  "scoreInv st \<Longrightarrow> scoreInv (dealerGammaRule dm spot st)"
  "scoreInv st \<Longrightarrow> scoreInv (pcrRule vm st)"
  "scoreInv st \<Longrightarrow> scoreInv (ivSpreadRule vm st)"
  "scoreInv st \<Longrightarrow> scoreInv (vixRule vm st)"
  "scoreInv st \<Longrightarrow> scoreInv (ivSkewRule vm st)"
  "scoreInv st \<Longrightarrow> scoreInv (skewIndexRule sk st)"
  by (simp_all add: dealerGammaRule_def pcrRule_def ivSpreadRule_def vixRule_def ivSkewRule_def
      skewIndexRule_def addBullish_inv addBearish_inv)

lemma rules_mono:
  "st_bull st + st_bear st \<le> st_bull (pcrRule vm st) + st_bear (pcrRule vm st)"
  "st_bull st + st_bear st \<le> st_bull (ivSpreadRule vm st) + st_bear (ivSpreadRule vm st)"
  "st_bull st + st_bear st \<le> st_bull (vixRule vm st) + st_bear (vixRule vm st)"
  "st_bull st + st_bear st \<le> st_bull (ivSkewRule vm st) + st_bear (ivSkewRule vm st)"
  "st_bull st + st_bear st \<le> st_bull (skewIndexRule sk st) + st_bear (skewIndexRule sk st)"
  by (simp_all add: pcrRule_def ivSpreadRule_def vixRule_def ivSkewRule_def
      skewIndexRule_def add_total)

lemma dealer_rule_total:
  "st_bull st + st_bear st + 1 \<le>
     st_bull (dealerGammaRule dm spot st) + st_bear (dealerGammaRule dm spot st)"
  by (simp add: dealerGammaRule_def add_total)

lemma rules_signals_prefix:
  "\<exists>more. st_signals (pcrRule vm st) = st_signals st @ more"
  "\<exists>more. st_signals (ivSpreadRule vm st) = st_signals st @ more"
  "\<exists>more. st_signals (vixRule vm st) = st_signals st @ more"
  "\<exists>more. st_signals (ivSkewRule vm st) = st_signals st @ more"
  "\<exists>more. st_signals (skewIndexRule sk st) = st_signals st @ more"
  by (simp_all add: pcrRule_def ivSpreadRule_def vixRule_def ivSkewRule_def
      skewIndexRule_def addBullish_def addBearish_def)

lemma dealer_rule_signal:
  "\<exists>g. st_signals (dealerGammaRule dm spot \<lparr>st_bull = 0, st_bear = 0, st_signals = []\<rparr>) = [g] \<and>
       factor g \<in> dealerFactors \<and> 1 \<le> weight g"
  by (simp add: dealerGammaRule_def addBullish_def addBearish_def dealerFactors_def)

lemma scoreRules_inv: "scoreInv (scoreRules vm dm spot sk)"
  unfolding scoreRules_def
  by (intro rules_inv) (simp add: scoreInv_def summedWeight_def)

lemma scoreRules_total: "1 \<le> st_bull (scoreRules vm dm spot sk) + st_bear (scoreRules vm dm spot sk)"
proof -
  let ?s0 = "\<lparr>st_bull = 0, st_bear = 0, st_signals = []\<rparr>"
  let ?s1 = "dealerGammaRule dm spot ?s0"
  let ?s2 = "pcrRule vm ?s1"
  let ?s3 = "ivSpreadRule vm ?s2"
  let ?s4 = "vixRule vm ?s3"
  let ?s5 = "ivSkewRule vm ?s4"
  have "1 \<le> st_bull ?s1 + st_bear ?s1" using dealer_rule_total [of ?s0 dm spot] by simp
  also have "\<dots> \<le> st_bull ?s2 + st_bear ?s2" by (rule rules_mono)
  also have "\<dots> \<le> st_bull ?s3 + st_bear ?s3" by (rule rules_mono)
  also have "\<dots> \<le> st_bull ?s4 + st_bear ?s4" by (rule rules_mono)
  also have "\<dots> \<le> st_bull ?s5 + st_bear ?s5" by (rule rules_mono)
  also have "\<dots> \<le> st_bull (skewIndexRule sk ?s5) + st_bear (skewIndexRule sk ?s5)" by (rule rules_mono)
  finally show ?thesis by (simp add: scoreRules_def)
qed

lemma scoreRules_first_signal:
  "\<exists>g more. st_signals (scoreRules vm dm spot sk) = g # more \<and> factor g \<in> dealerFactors \<and> 1 \<le> weight g"
proof -
  let ?s0 = "\<lparr>st_bull = 0, st_bear = 0, st_signals = []\<rparr>"
  let ?s1 = "dealerGammaRule dm spot ?s0"
  let ?s2 = "pcrRule vm ?s1"
  let ?s3 = "ivSpreadRule vm ?s2"
  let ?s4 = "vixRule vm ?s3"
  let ?s5 = "ivSkewRule vm ?s4"
  from dealer_rule_signal obtain g where g: "st_signals ?s1 = [g]" "factor g \<in> dealerFactors" "1 \<le> weight g"
    by blast
  from rules_signals_prefix(1) obtain m2 where "st_signals ?s2 = st_signals ?s1 @ m2" by blast
  moreover from rules_signals_prefix(2) obtain m3 where "st_signals ?s3 = st_signals ?s2 @ m3" by blast
  moreover from rules_signals_prefix(3) obtain m4 where "st_signals ?s4 = st_signals ?s3 @ m4" by blast
  moreover from rules_signals_prefix(4) obtain m5 where "st_signals ?s5 = st_signals ?s4 @ m5" by blast
  moreover from rules_signals_prefix(5) obtain m6 where "st_signals (skewIndexRule sk ?s5) = st_signals ?s5 @ m6" by blast
  ultimately have "st_signals (scoreRules vm dm spot sk) = g # (m2 @ m3 @ m4 @ m5 @ m6)"
    using g(1) by (simp add: scoreRules_def)
  with g show ?thesis by blast
qed


lemma generatePrediction_Some:
  assumes "generatePrediction now vm dm spot sk = Some r"
  obtains v d where "vm = Some v" "dm = Some d"
    "bullishScore r = st_bull (scoreRules v d spot sk)"
    "bearishScore r = st_bear (scoreRules v d spot sk)"
    "signals r = st_signals (scoreRules v d spot sk)"
    "prediction r = (if bullishScore r > bearishScore r then ''BULLISH'' else ''BEARISH'')"
    "confidence r = jsDivide \<bar>bullishScore r - bearishScore r\<bar> (bullishScore r + bearishScore r)"
    "timestamp r = now" "spyPriceAtPrediction r = spot"
  using assms
  by (cases vm; cases dm) (auto simp: generatePrediction_def Let_def)

text \<open>
  C5. The scorer returns \<open>null\<close> exactly when a metrics argument is \<open>null\<close>. Otherwise the
  bullish and bearish scores are the summed weights of the bullish and bearish signals, the
  direction is BULLISH if the bullish score exceeds the bearish score and BEARISH
  otherwise, and the confidence is \<open>|bull - bear| / (bull + bear)\<close>, a finite number, which
  would be 0 in the case \<open>bull + bear = 0\<close>; that case never arises, so no division by zero
  takes place.
\<close>

theorem generatePrediction_direction_confidence:
  "(generatePrediction now vm dm spot sk = None \<longleftrightarrow> vm = None \<or> dm = None) \<and>
   (generatePrediction now vm dm spot sk = Some r \<longrightarrow>
      bullishScore r = summedWeight ''bullish'' (signals r) \<and>
      bearishScore r = summedWeight ''bearish'' (signals r) \<and>
      prediction r = (if bullishScore r > bearishScore r then ''BULLISH'' else ''BEARISH'') \<and>
      confidence r =
        (if bullishScore r + bearishScore r = 0 then Some 0
         else Some (\<bar>bullishScore r - bearishScore r\<bar> / (bullishScore r + bearishScore r))))"
proof (rule conjI)
  show "generatePrediction now vm dm spot sk = None \<longleftrightarrow> vm = None \<or> dm = None"
    by (cases vm; cases dm) (simp_all add: generatePrediction_def Let_def)
next
  show "generatePrediction now vm dm spot sk = Some r \<longrightarrow>
      bullishScore r = summedWeight ''bullish'' (signals r) \<and>
      bearishScore r = summedWeight ''bearish'' (signals r) \<and>
      prediction r = (if bullishScore r > bearishScore r then ''BULLISH'' else ''BEARISH'') \<and>
      confidence r =
        (if bullishScore r + bearishScore r = 0 then Some 0
         else Some (\<bar>bullishScore r - bearishScore r\<bar> / (bullishScore r + bearishScore r)))"
  proof
    assume "generatePrediction now vm dm spot sk = Some r"
    then obtain v d where r:
      "bullishScore r = st_bull (scoreRules v d spot sk)"
      "bearishScore r = st_bear (scoreRules v d spot sk)"
      "signals r = st_signals (scoreRules v d spot sk)"
      "prediction r = (if bullishScore r > bearishScore r then ''BULLISH'' else ''BEARISH'')"
      "confidence r = jsDivide \<bar>bullishScore r - bearishScore r\<bar> (bullishScore r + bearishScore r)"
      by (rule generatePrediction_Some)
    from scoreRules_total [of v d spot sk] r(1,2)
    have total: "bullishScore r + bearishScore r \<noteq> 0" by simp
    from scoreRules_inv [of v d spot sk] r(1,2,3)
    have "bullishScore r = summedWeight ''bullish'' (signals r)"
      and "bearishScore r = summedWeight ''bearish'' (signals r)"
      by (simp_all add: scoreInv_def)
    moreover from r(5) total
    have "confidence r =
        (if bullishScore r + bearishScore r = 0 then Some 0
         else Some (\<bar>bullishScore r - bearishScore r\<bar> / (bullishScore r + bearishScore r)))"
      by (simp add: jsDivide_def)
    ultimately show "bullishScore r = summedWeight ''bullish'' (signals r) \<and>
      bearishScore r = summedWeight ''bearish'' (signals r) \<and>
      prediction r = (if bullishScore r > bearishScore r then ''BULLISH'' else ''BEARISH'') \<and>
      confidence r =
        (if bullishScore r + bearishScore r = 0 then Some 0
         else Some (\<bar>bullishScore r - bearishScore r\<bar> / (bullishScore r + bearishScore r)))"
      using r(4) by (intro conjI)
  qed
qed

theorem generatePrediction_direction_confidence_witness:
  "generatePrediction ''2024-01-05T15:00:00.000Z'' (Some quietVol) (Some longGamma) 500 130 \<noteq> None \<and>
   map_option prediction
     (generatePrediction ''2024-01-05T15:00:00.000Z'' (Some quietVol) (Some longGamma) 500 130) =
     Some ''BEARISH'' \<and>
   map_option confidence
     (generatePrediction ''2024-01-05T15:00:00.000Z'' (Some quietVol) (Some longGamma) 500 130) =
     Some (Some 1)"
proof -
  let ?g = "generatePrediction ''2024-01-05T15:00:00.000Z'' (Some quietVol) (Some longGamma) 500 130"
  from generatePrediction_direction_confidence
    [of "''2024-01-05T15:00:00.000Z''" "Some quietVol" "Some longGamma" 500 130]
  obtain r where r: "?g = Some r" by auto
  have scores: "map_option bullishScore ?g = Some 0" "map_option bearishScore ?g = Some 1"
    by (simp_all add: generatePrediction_def scoreRules_def dealerGammaRule_def pcrRule_def
        ivSpreadRule_def vixRule_def ivSkewRule_def skewIndexRule_def addBearish_def addBullish_def
        quietVol_def longGamma_def Let_def)
  with r have "bullishScore r = 0" "bearishScore r = 1" by simp_all
  with generatePrediction_direction_confidence
    [of "''2024-01-05T15:00:00.000Z''" "Some quietVol" "Some longGamma" 500 130 r] r
  show ?thesis by simp
qed

text \<open>
  C10. Whenever both metrics are non-null the scorer produces a result, and in every
  result the first signal is one of the three dealer-gamma factors with weight at least 1,
  so \<open>bull + bear \<ge> 1\<close> and the confidence \<open>|bull - bear| / (bull + bear)\<close> is the result
  of a division by a non-zero number, a value in [0, 1].
\<close>

theorem generatePrediction_no_division_by_zero:
  "(vm \<noteq> None \<and> dm \<noteq> None \<longrightarrow> generatePrediction now vm dm spot sk \<noteq> None) \<and>
   (generatePrediction now vm dm spot sk = Some r \<longrightarrow>
      (\<exists>g more. signals r = g # more \<and> factor g \<in> dealerFactors \<and> 1 \<le> weight g) \<and>
      1 \<le> bullishScore r + bearishScore r \<and>
      confidence r = Some (\<bar>bullishScore r - bearishScore r\<bar> / (bullishScore r + bearishScore r)) \<and>
      (\<exists>c. confidence r = Some c \<and> 0 \<le> c \<and> c \<le> 1))"
proof (rule conjI)
  show "vm \<noteq> None \<and> dm \<noteq> None \<longrightarrow> generatePrediction now vm dm spot sk \<noteq> None"
    by (cases vm; cases dm) (simp_all add: generatePrediction_def Let_def)
next
  show "generatePrediction now vm dm spot sk = Some r \<longrightarrow>
      (\<exists>g more. signals r = g # more \<and> factor g \<in> dealerFactors \<and> 1 \<le> weight g) \<and>
      1 \<le> bullishScore r + bearishScore r \<and>
      confidence r = Some (\<bar>bullishScore r - bearishScore r\<bar> / (bullishScore r + bearishScore r)) \<and>
      (\<exists>c. confidence r = Some c \<and> 0 \<le> c \<and> c \<le> 1)"
  proof
    assume "generatePrediction now vm dm spot sk = Some r"
    then obtain v d where r:
      "bullishScore r = st_bull (scoreRules v d spot sk)"
      "bearishScore r = st_bear (scoreRules v d spot sk)"
      "signals r = st_signals (scoreRules v d spot sk)"
      "confidence r = jsDivide \<bar>bullishScore r - bearishScore r\<bar> (bullishScore r + bearishScore r)"
      by (rule generatePrediction_Some)
    from scoreRules_total [of v d spot sk] r(1,2)
    have total: "1 \<le> bullishScore r + bearishScore r" by simp
    from scoreRules_inv [of v d spot sk] r(1,2)
    have nonneg: "0 \<le> bullishScore r" "0 \<le> bearishScore r"
      by (simp_all add: scoreInv_def)
    from scoreRules_first_signal [of v d spot sk] r(3)
    have first: "\<exists>g more. signals r = g # more \<and> factor g \<in> dealerFactors \<and> 1 \<le> weight g"
      by simp
    from r(4) total
    have conf: "confidence r = Some (\<bar>bullishScore r - bearishScore r\<bar> / (bullishScore r + bearishScore r))"
      by (simp add: jsDivide_def)
    from nonneg have "\<bar>bullishScore r - bearishScore r\<bar> \<le> bullishScore r + bearishScore r"
      by simp
    with total have "\<bar>bullishScore r - bearishScore r\<bar> / (bullishScore r + bearishScore r) \<le> 1"
      by (simp add: divide_le_eq_1)
    moreover from total have "0 \<le> \<bar>bullishScore r - bearishScore r\<bar> / (bullishScore r + bearishScore r)"
      by simp
    ultimately have "\<exists>c. confidence r = Some c \<and> 0 \<le> c \<and> c \<le> 1"
      using conf by simp
    with first total conf show "(\<exists>g more. signals r = g # more \<and> factor g \<in> dealerFactors \<and> 1 \<le> weight g) \<and>
      1 \<le> bullishScore r + bearishScore r \<and>
      confidence r = Some (\<bar>bullishScore r - bearishScore r\<bar> / (bullishScore r + bearishScore r)) \<and>
      (\<exists>c. confidence r = Some c \<and> 0 \<le> c \<and> c \<le> 1)"
      by (intro conjI)
  qed
qed

theorem generatePrediction_no_division_by_zero_witness:
  "Some quietVol \<noteq> None \<and> Some longGamma \<noteq> None \<and>
   map_option (\<lambda>r. bullishScore r + bearishScore r)
     (generatePrediction ''2024-01-05T15:00:00.000Z'' (Some quietVol) (Some longGamma) 500 130) = Some 1 \<and>
   map_option (\<lambda>r. map factor (signals r))
     (generatePrediction ''2024-01-05T15:00:00.000Z'' (Some quietVol) (Some longGamma) 500 130) =
     Some [''Dealer Long Gamma (Dampening)''] \<and>
   map_option confidence
     (generatePrediction ''2024-01-05T15:00:00.000Z'' (Some quietVol) (Some longGamma) 500 130) =
     Some (Some 1)"
proof -
  let ?g = "generatePrediction ''2024-01-05T15:00:00.000Z'' (Some quietVol) (Some longGamma) 500 130"
  from generatePrediction_no_division_by_zero
    [of "Some quietVol" "Some longGamma" "''2024-01-05T15:00:00.000Z''" 500 130]
  obtain r where r: "?g = Some r" by auto
  have scores: "map_option bullishScore ?g = Some 0" "map_option bearishScore ?g = Some 1"
    "map_option (\<lambda>r. map factor (signals r)) ?g = Some [''Dealer Long Gamma (Dampening)'']"
    by (simp_all add: generatePrediction_def scoreRules_def dealerGammaRule_def pcrRule_def
        ivSpreadRule_def vixRule_def ivSkewRule_def skewIndexRule_def addBearish_def addBullish_def
        quietVol_def longGamma_def Let_def)
  with r have "bullishScore r = 0" "bearishScore r = 1" by simp_all
  with generatePrediction_no_division_by_zero
    [of "Some quietVol" "Some longGamma" "''2024-01-05T15:00:00.000Z''" 500 130 r] r scores(3)
  show ?thesis by simp
qed


subsection \<open>Purity\<close>

lemma mockWall_cong:
  assumes "\<forall>j<84. rnd j = rnd' j" "k < 21"
  shows "mockWall rnd b k = mockWall rnd' b k"
proof -
  from assms have "rnd (4 * k) = rnd' (4 * k)" "rnd (4 * k + 1) = rnd' (4 * k + 1)"
    "rnd (4 * k + 2) = rnd' (4 * k + 2)" "rnd (4 * k + 3) = rnd' (4 * k + 3)"
    by simp_all
  then show ?thesis by (simp add: mockWall_def Let_def)
qed

lemma generateMockOptionsWalls_cong:
  assumes "\<forall>j<84. rnd j = rnd' j"
  shows "generateMockOptionsWalls rnd cp = generateMockOptionsWalls rnd' cp"
proof -
  have "map (mockWall rnd b) [0 ..< 21] = map (mockWall rnd' b) [0 ..< 21]" for b
    using assms by (intro map_cong) (auto simp: mockWall_cong)
  then show ?thesis by (simp only: generateMockOptionsWalls_def)
qed

lemma calculateOptionsWalls_nonempty:
  assumes "opts \<noteq> []"
  shows "calculateOptionsWalls rnd (Some opts) cp = calculateOptionsWalls rnd' (Some opts) cp"
  using assms by (cases opts) (simp_all add: calculateOptionsWalls_def)

text \<open>
  C9, as amended, for the two functions that the claim names. \<open>calculateOptionsWalls\<close> on
  a non-empty chain returns the same result whatever the random numbers are, and on an
  absent or empty chain its result is determined by its arguments and the 84 random
  numbers that it draws. Two results of \<open>generatePrediction\<close> on the same arguments agree
  in every field except the timestamp, which is the clock reading of the call.
\<close>

theorem analytics_deterministic_up_to_clock_and_random:
  "(optionsData = Some opts \<and> opts \<noteq> [] \<longrightarrow>
      calculateOptionsWalls rnd optionsData cp = calculateOptionsWalls rnd' optionsData cp) \<and>
   ((\<forall>j<84. rnd j = rnd' j) \<longrightarrow>
      calculateOptionsWalls rnd optionsData cp = calculateOptionsWalls rnd' optionsData cp) \<and>
   map_option (timestamp_update (\<lambda>_. t)) (generatePrediction now vm dm spot sk) =
     map_option (timestamp_update (\<lambda>_. t)) (generatePrediction now' vm dm spot sk) \<and>
   (generatePrediction now vm dm spot sk = Some r \<longrightarrow> timestamp r = now)"
proof (intro conjI impI)
  assume "optionsData = Some opts \<and> opts \<noteq> []"
  then show "calculateOptionsWalls rnd optionsData cp = calculateOptionsWalls rnd' optionsData cp"
    using calculateOptionsWalls_nonempty [of opts rnd cp rnd'] by simp
next
  assume eq: "\<forall>j<84. rnd j = rnd' j"
  show "calculateOptionsWalls rnd optionsData cp = calculateOptionsWalls rnd' optionsData cp"
  proof (cases optionsData)
    case None
    with eq show ?thesis
      by (simp add: calculateOptionsWalls_def generateMockOptionsWalls_cong)
  next
    case (Some opts')
    show ?thesis
    proof (cases "opts' = []")
      case True
      with Some eq show ?thesis
        by (simp add: calculateOptionsWalls_def generateMockOptionsWalls_cong)
    next
      case False
      with Some show ?thesis by (simp add: calculateOptionsWalls_nonempty)
    qed
  qed
next
  show "map_option (timestamp_update (\<lambda>_. t)) (generatePrediction now vm dm spot sk) =
     map_option (timestamp_update (\<lambda>_. t)) (generatePrediction now' vm dm spot sk)"
    by (cases vm; cases dm) (simp_all add: generatePrediction_def Let_def)
next
  assume "generatePrediction now vm dm spot sk = Some r"
  then show "timestamp r = now"
    by (cases vm; cases dm) (auto simp: generatePrediction_def Let_def)
qed

theorem analytics_deterministic_up_to_clock_and_random_witness:
  "twoContracts \<noteq> [] \<and>
   calculateOptionsWalls rndZero (Some twoContracts) (Some 590) =
     calculateOptionsWalls rndHalf (Some twoContracts) (Some 590) \<and>
   map_option timestamp
     (generatePrediction ''2024-01-05T15:00:00.000Z'' (Some quietVol) (Some longGamma) 500 130) =
     Some ''2024-01-05T15:00:00.000Z''"
proof -
  let ?now = "''2024-01-05T15:00:00.000Z''"
  have ne: "twoContracts \<noteq> []" by (simp add: twoContracts_def)
  obtain r where r: "generatePrediction ?now (Some quietVol) (Some longGamma) 500 130 = Some r"
    by (simp add: generatePrediction_def Let_def)
  from analytics_deterministic_up_to_clock_and_random
    [of "Some twoContracts" twoContracts rndZero "Some 590" rndHalf t ?now "Some quietVol"
        "Some longGamma" 500 130 now' r] ne r
  show ?thesis by simp
qed

text \<open>
  C9, as stated, fails for both functions it names: two runs of \<open>generatePrediction\<close> on
  identical arguments one second apart return different results, and two runs of
  \<open>calculateOptionsWalls\<close> on an empty chain with different random draws return different
  walls (the call open interest at the central strike is 48000 in one and 60000 in the
  other).
\<close>

theorem analytics_purity_counterexample:
  "generatePrediction ''2024-01-05T15:00:00.000Z'' (Some quietVol) (Some longGamma) 500 130 \<noteq>
   generatePrediction ''2024-01-05T15:00:01.000Z'' (Some quietVol) (Some longGamma) 500 130 \<and>
   calculateOptionsWalls rndZero (Some []) None \<noteq> calculateOptionsWalls rndHalf (Some []) None"
proof
  show "generatePrediction ''2024-01-05T15:00:00.000Z'' (Some quietVol) (Some longGamma) 500 130 \<noteq>
   generatePrediction ''2024-01-05T15:00:01.000Z'' (Some quietVol) (Some longGamma) 500 130"
    by (simp add: generatePrediction_def Let_def)
next
  have nth: "walls (generateMockOptionsWalls rnd None) ! 10 = withMetrics (mockWall rnd 595 10)" for rnd
    by (simp add: generateMockOptionsWalls_def orElse_def Let_def del: upt_Suc)
  have zero: "callOI (mockWall rndZero 595 10) = 48000"
    by (simp add: mockWall_def jsRound_def Let_def rndZero_def)
  have half: "callOI (mockWall rndHalf 595 10) = 60000"
    by (simp add: mockWall_def jsRound_def Let_def rndHalf_def)
  show "calculateOptionsWalls rndZero (Some []) None \<noteq> calculateOptionsWalls rndHalf (Some []) None"
  proof
    assume "calculateOptionsWalls rndZero (Some []) None = calculateOptionsWalls rndHalf (Some []) None"
    then have "generateMockOptionsWalls rndZero None = generateMockOptionsWalls rndHalf None"
      by (simp add: calculateOptionsWalls_def)
    then have "walls (generateMockOptionsWalls rndZero None) ! 10 =
               walls (generateMockOptionsWalls rndHalf None) ! 10"
      by (rule arg_cong)
    then have "withMetrics (mockWall rndZero 595 10) = withMetrics (mockWall rndHalf 595 10)"
      by (simp only: nth)
    then have "callOI (withMetrics (mockWall rndZero 595 10)) = callOI (withMetrics (mockWall rndHalf 595 10))"
      by (rule arg_cong)
    with zero half show False by (simp add: withMetrics_def)
  qed
qed


subsection \<open>Support and resistance clusters\<close>

lemma findCluster_Some:
  "findCluster cs p = Some i \<Longrightarrow>
     i < length cs \<and> withinTolerance (cs ! i) p \<and> (\<forall>j<i. \<not> withinTolerance (cs ! j) p)"
proof (induction cs arbitrary: i)
  case Nil
  then show ?case by simp
next
  case (Cons c cs)
  show ?case
  proof (cases "withinTolerance c p")
    case True
    with Cons.prems show ?thesis by simp
  next
    case False
    with Cons.prems obtain k where k: "findCluster cs p = Some k" "i = Suc k" by auto
    from Cons.IH [OF k(1)] False k(2) show ?thesis
      by (auto simp: less_Suc_eq_0_disj)
  qed
qed

lemma findCluster_None:
  "findCluster cs p = None \<longleftrightarrow> (\<forall>c\<in>set cs. \<not> withinTolerance c p)"
  by (induction cs) auto

lemma clusterStep_length: "length (clusterStep cs p) \<le> Suc (length cs)"
  by (simp add: clusterStep_def split: option.split)

lemma clusterStep_touches:
  "sum_list (map touches (clusterStep cs p)) = Suc (sum_list (map touches cs))"
proof (cases "findCluster cs p")
  case None
  then show ?thesis by (simp add: clusterStep_def newCluster_def)
next
  case (Some i)
  from findCluster_Some [OF Some] have i: "i < length cs" by simp
  have "map touches (cs[i := mergeInto (cs ! i) p]) = (map touches cs)[i := Suc (touches (cs ! i))]"
    by (simp add: map_update mergeInto_def)
  with i Some show ?thesis
    by (simp add: clusterStep_def sum_list_update)
qed

lemma clusterPoints_fold:
  "length (foldl clusterStep cs pts) \<le> length cs + length pts \<and>
   sum_list (map touches (foldl clusterStep cs pts)) = sum_list (map touches cs) + length pts"
proof (induction pts arbitrary: cs)
  case Nil
  show ?case by simp
next
  case (Cons p pts)
  from Cons [of "clusterStep cs p"] clusterStep_length [of cs p] clusterStep_touches [of cs p]
  show ?case by simp
qed

text \<open>
  C8, as amended. Every swing point is counted in exactly one cluster (the touches add up
  to the number of points), so the clusters, and the levels returned, are never more
  numerous than the input swing points. A point merges into the first existing cluster
  whose current price, the running mean of that cluster, is within the 0.5% tolerance of
  the point's price; when no cluster is, the point starts a new cluster.
\<close>

theorem clustering_by_running_price:
  "length (clusterPoints pts) \<le> length pts \<and>
   sum_list (map touches (clusterPoints pts)) = length pts \<and>
   length (calculateSupportResistance cp data sw) \<le> length (highs sw) + length (lows sw) \<and>
   ((\<exists>c\<in>set cs. withinTolerance c p) \<longrightarrow>
      (\<exists>i<length cs. withinTolerance (cs ! i) p \<and> (\<forall>j<i. \<not> withinTolerance (cs ! j) p) \<and>
          receivingCluster cs p = i \<and> clusterStep cs p = cs[i := mergeInto (cs ! i) p])) \<and>
   ((\<forall>c\<in>set cs. \<not> withinTolerance c p) \<longrightarrow>
      receivingCluster cs p = length cs \<and> clusterStep cs p = cs @ [newCluster p])"
proof (intro conjI impI)
  from clusterPoints_fold [of "[]" pts]
  show "length (clusterPoints pts) \<le> length pts"
    and "sum_list (map touches (clusterPoints pts)) = length pts"
    by (simp_all add: clusterPoints_def)
next
  let ?pts = "map (\<lambda>h. \<lparr>price = sw_price h, type = ''resistance'', strength = sw_strength h\<rparr>) (highs sw) @
            map (\<lambda>l. \<lparr>price = sw_price l, type = ''support'', strength = sw_strength l\<rparr>) (lows sw)"
  from clusterPoints_fold [of "[]" ?pts]
  have "length (clusterPoints ?pts) \<le> length (highs sw) + length (lows sw)"
    by (simp add: clusterPoints_def)
  then show "length (calculateSupportResistance cp data sw) \<le> length (highs sw) + length (lows sw)"
    by (simp add: calculateSupportResistance_def Let_def)
next
  assume "\<exists>c\<in>set cs. withinTolerance c p"
  then have "findCluster cs p \<noteq> None" by (simp add: findCluster_None)
  then obtain i where i: "findCluster cs p = Some i" by auto
  from findCluster_Some [OF i] i
  show "\<exists>i<length cs. withinTolerance (cs ! i) p \<and> (\<forall>j<i. \<not> withinTolerance (cs ! j) p) \<and>
          receivingCluster cs p = i \<and> clusterStep cs p = cs[i := mergeInto (cs ! i) p]"
    by (auto simp: clusterStep_def receivingCluster_def)
next
  assume "\<forall>c\<in>set cs. \<not> withinTolerance c p"
  then have none: "findCluster cs p = None" by (simp add: findCluster_None)
  then show "receivingCluster cs p = length cs" by (simp add: receivingCluster_def)
  from none show "clusterStep cs p = cs @ [newCluster p]" by (simp add: clusterStep_def)
qed

theorem clustering_by_running_price_witness:
  "withinTolerance (newCluster (resistanceAt 1000)) (resistanceAt 1004) \<and>
   clusterStep [newCluster (resistanceAt 1000)] (resistanceAt 1004) =
     [\<lparr>price = 1002, type = ''resistance'', strength = 2, touches = 2\<rparr>] \<and>
   \<not> withinTolerance (newCluster (resistanceAt 1000)) (resistanceAt 1008) \<and>
   clusterStep [newCluster (resistanceAt 1000)] (resistanceAt 1008) =
     [newCluster (resistanceAt 1000), newCluster (resistanceAt 1008)] \<and>
   length (clusterPoints threeSwings) \<le> 3"
proof -
  note defs = withinTolerance_def newCluster_def resistanceAt_def mergeInto_def
  let ?cs = "[newCluster (resistanceAt 1000)]"
  have near: "\<exists>c\<in>set ?cs. withinTolerance c (resistanceAt 1004)"
    by (simp add: defs)
  have far: "\<forall>c\<in>set ?cs. \<not> withinTolerance c (resistanceAt 1008)"
    by (simp add: defs)
  from clustering_by_running_price [of threeSwings None "[]" "\<lparr>highs = [], lows = []\<rparr>" ?cs "resistanceAt 1004"] near
  obtain i where "i < length ?cs"
    and "clusterStep ?cs (resistanceAt 1004) = ?cs[i := mergeInto (?cs ! i) (resistanceAt 1004)]"
    by blast
  then have merged: "clusterStep ?cs (resistanceAt 1004) =
      [\<lparr>price = 1002, type = ''resistance'', strength = 2, touches = 2\<rparr>]"
    by (simp add: defs)
  from clustering_by_running_price [of threeSwings None "[]" "\<lparr>highs = [], lows = []\<rparr>" ?cs "resistanceAt 1008"] far
  have pushed: "clusterStep ?cs (resistanceAt 1008) = ?cs @ [newCluster (resistanceAt 1008)]"
    by blast
  from clustering_by_running_price [of threeSwings None "[]" "\<lparr>highs = [], lows = []\<rparr>" ?cs "resistanceAt 1008"]
  have "length (clusterPoints threeSwings) \<le> length threeSwings"
    by blast
  then have "length (clusterPoints threeSwings) \<le> 3"
    by (simp add: threeSwings_def)
  with near far merged pushed show ?thesis by simp
qed

text \<open>
  C8, as stated, fails: of the swing points 1000, 1004 and 1008 the last two are within
  0.5% of each other, but 1004 merges into the cluster of 1000, whose price moves to 1002,
  and 1008 is then more than 0.5% away from 1002 and starts a cluster of its own.
\<close>

theorem clustering_pairwise_counterexample:
  "withinHalfPercent (price (threeSwings ! 1)) (price (threeSwings ! 2)) \<and>
   clusterAssignments [] threeSwings ! 1 \<noteq> clusterAssignments [] threeSwings ! 2 \<and>
   clusterAssignments [] threeSwings = [0, 0, 1] \<and>
   map price (clusterPoints threeSwings) = [1002, 1008] \<and>
   map touches (clusterPoints threeSwings) = [2, 1]"
  by (simp add: threeSwings_def resistanceAt_def withinHalfPercent_def clusterPoints_def
      clusterStep_def receivingCluster_def withinTolerance_def mergeInto_def newCluster_def)


subsection \<open>Correlation\<close>

















subsection \<open>Rolling correlation\<close>

lemma jsSlice_nth:
  assumes "a \<le> b" "b \<le> length xs"
  shows "jsSlice xs a b = map (\<lambda>j. xs ! j) [a ..< b]"
  using assms by (intro nth_equalityI) (auto simp: jsSlice_def)

text \<open>
  C7, as amended. For a series of length n and window W, the rolling correlation emits
  exactly one point for each index i with \<open>W \<le> i < n\<close>, in order; the point carries the
  timestamp and values of \<open>data[i]\<close>, and its correlation is the Pearson correlation of the
  W points that precede index i, at the indices \<open>i - W, \<dots>, i - 1\<close>.
\<close>

theorem calculateRollingCorrelation_window:
  "length (calculateRollingCorrelation fl data window) = length data - window \<and>
   (\<forall>i. window \<le> i \<and> i < length data \<longrightarrow>
      (let r = calculateRollingCorrelation fl data window ! (i - window);
           preceding = map (\<lambda>j. data ! j) [i - window ..< i]
       in cp_timestamp r = cp_timestamp (data ! i) \<and> cp_spy r = cp_spy (data ! i) \<and>
          cp_vix r = cp_vix (data ! i) \<and>
          length preceding = window \<and>
          spyVixCorr r = calculateCorrelation fl (map cp_spy preceding) (map cp_vix preceding)))"
proof (intro conjI allI impI)
  show "length (calculateRollingCorrelation fl data window) = length data - window"
    by (simp add: calculateRollingCorrelation_def)
next
  fix i
  assume i: "window \<le> i \<and> i < length data"
  then have "i - window < length [window ..< length data]" and "window + (i - window) = i"
    by auto
  then have nth: "calculateRollingCorrelation fl data window ! (i - window) = rollingAt fl data window i"
    unfolding calculateRollingCorrelation_def by (simp only: nth_map nth_upt length_upt)
  from i have "jsSlice data (i - window) i = map (\<lambda>j. data ! j) [i - window ..< i]"
    by (intro jsSlice_nth) auto
  with i nth show "let r = calculateRollingCorrelation fl data window ! (i - window);
           preceding = map (\<lambda>j. data ! j) [i - window ..< i]
       in cp_timestamp r = cp_timestamp (data ! i) \<and> cp_spy r = cp_spy (data ! i) \<and>
          cp_vix r = cp_vix (data ! i) \<and>
          length preceding = window \<and>
          spyVixCorr r = calculateCorrelation fl (map cp_spy preceding) (map cp_vix preceding)"
    by (simp add: rollingAt_def Let_def)
qed

theorem calculateRollingCorrelation_window_witness:
  "(2::nat) \<le> 2 \<and> 2 < length rollingExample \<and>
   length (calculateRollingCorrelation exact rollingExample 2) = 1 \<and>
   spyVixCorr (calculateRollingCorrelation exact rollingExample 2 ! 0) =
     calculateCorrelation exact [2, 4] [2, 4] \<and>
   cp_timestamp (calculateRollingCorrelation exact rollingExample 2 ! 0) = 3"
  using calculateRollingCorrelation_window [of exact rollingExample 2, THEN conjunct1]
    calculateRollingCorrelation_window [of exact rollingExample 2, THEN conjunct2, rule_format, of 2]
  by (simp add: rollingExample_def Let_def upt_rec)

text \<open>
  The example of three points in any arithmetic that is exact on the integers up to 100, as
  doubles are.
\<close>

lemma rollingExample_values:
  assumes ints: "\<forall>x\<in>\<int>. \<bar>x\<bar> \<le> 100 \<longrightarrow> fl x = x"
  shows "map spyVixCorr (calculateRollingCorrelation fl rollingExample 2) = [1]"
    and "calculateCorrelation fl (map cp_spy (trailingWindow rollingExample 2 2))
                                 (map cp_vix (trailingWindow rollingExample 2 2)) = - 1"
proof -
  have fl: "fl 0 = 0" "fl 1 = 1" "fl 2 = 2" "fl 3 = 3" "fl 4 = 4" "fl 5 = 5" "fl 6 = 6" "fl 10 = 10"
    "fl (- 1) = - 1" "fl (- 2) = - 2"
    using ints by simp_all
  show "map spyVixCorr (calculateRollingCorrelation fl rollingExample 2) = [1]"
    by (simp add: calculateRollingCorrelation_def rollingAt_def jsSlice_def
        rollingExample_def calculateCorrelation_def reduceSum_def corrStep_def Let_def upt_rec fl)
  show "calculateCorrelation fl (map cp_spy (trailingWindow rollingExample 2 2))
                                 (map cp_vix (trailingWindow rollingExample 2 2)) = - 1"
    by (simp add: trailingWindow_def jsSlice_def
        rollingExample_def calculateCorrelation_def reduceSum_def corrStep_def Let_def upt_rec fl)
qed

text \<open>
  C7, as stated, fails: the window does not end at index i. With window 2 on three points
  whose second series rises and then falls, the value emitted for index 2 is the
  correlation of the points 0 and 1, which is 1, while the two points that end at index 2
  (the points 1 and 2) have correlation \<open>-1\<close>. Every intermediate result is a small
  integer, so the double computation is the exact one.
\<close>

theorem calculateRollingCorrelation_inclusive_counterexample:
  "map spyVixCorr (calculateRollingCorrelation exact rollingExample 2) = [1] \<and>
   calculateCorrelation exact (map cp_spy (trailingWindow rollingExample 2 2))
                              (map cp_vix (trailingWindow rollingExample 2 2)) = - 1"
  using rollingExample_values [of exact] by (simp add: exact_def)

subsection \<open>Volume profile\<close>

lemma foldl_min_constant: "\<forall>x\<in>set xs. x = c \<Longrightarrow> foldl min (c::real) xs = c"
  by (induction xs) auto

lemma foldl_max_constant: "\<forall>x\<in>set xs. x = c \<Longrightarrow> foldl max (c::real) xs = c"
  by (induction xs) auto

lemma flat_prices:
  assumes "data \<noteq> []" "\<forall>d\<in>set data. close d = c"
  shows "minPrice data = c" "maxPrice data = c"
proof -
  from assms obtain d0 rest where data: "data = d0 # rest" by (cases data) auto
  with assms(2) have "close d0 = c" "\<forall>x\<in>set (map close rest). x = c" by auto
  then show "minPrice data = c" "maxPrice data = c"
    using data by (simp_all add: minPrice_def maxPrice_def foldl_min_constant foldl_max_constant)
qed

lemma foldl_unchanged: "foldl (\<lambda>sum d. sum) s ds = s"
  by (induction ds) auto

lemma empty_interval_volume: "binVolumeOf fl data c c = 0"
proof -
  have "(\<lambda>sum d. if close d \<ge> c \<and> close d < c then fl (sum + orElse (Some (barVolume d)) 0) else sum) =
        (\<lambda>sum d. sum)"
    by (rule ext, rule ext) simp
  then show ?thesis by (simp only: binVolumeOf_def foldl_unchanged)
qed

lemma flat_bin:
  assumes "data \<noteq> []" "\<forall>d\<in>set data. close d = c" "fl 0 = 0" "fl c = c"
  shows "priceLow (makeBin fl data i) = c" "priceHigh (makeBin fl data i) = c"
    "volume (makeBin fl data i) = 0"
proof -
  note flat = flat_prices [OF assms(1,2)]
  have size: "binSize fl data = 0"
    by (simp add: binSize_def flat assms(3))
  show lo: "priceLow (makeBin fl data i) = c"
    by (simp add: makeBin_def Let_def size flat assms(3,4))
  show hi: "priceHigh (makeBin fl data i) = c"
    by (simp add: makeBin_def Let_def size flat assms(3,4))
  have "volume (makeBin fl data i) =
      binVolumeOf fl data (priceLow (makeBin fl data i)) (priceHigh (makeBin fl data i))"
    by (simp add: makeBin_def Let_def)
  then show "volume (makeBin fl data i) = 0"
    by (simp only: lo hi empty_interval_volume)
qed

lemma poc_fold:
  "foldl (\<lambda>max curr. if volume curr > volume max then curr else max) m bs \<in> set (m # bs)"
proof (induction bs arbitrary: m)
  case Nil
  show ?case by simp
next
  case (Cons b bs)
  from Cons [of "if volume b > volume m then b else m"] show ?case by (auto split: if_splits)
qed

lemma total_of_empty_bins:
  assumes "fl 0 = 0" "\<forall>b\<in>set bs. volume b = 0"
  shows "foldl (\<lambda>sum p. fl (sum + volume p)) 0 bs = 0"
  using assms(2) by (induction bs) (simp_all add: assms(1))

lemma no_value_area: "accumulateValueArea fl 0 0 bs = []"
  by (cases bs) simp_all

lemma sum_list_zeros: "\<forall>x\<in>set xs. x = 0 \<Longrightarrow> sum_list xs = (0::real)"
  by (induction xs) auto

lemma sum_list_positive:
  "xs \<noteq> [] \<Longrightarrow> \<forall>x\<in>set xs. 0 < f x \<Longrightarrow> 0 < (\<Sum>x\<leftarrow>xs. (f x :: real))"
proof (induction xs)
  case Nil
  then show ?case by simp
next
  case (Cons x xs)
  show ?case
  proof (cases "xs = []")
    case True
    with Cons.prems show ?thesis by simp
  next
    case False
    with Cons have "0 < (\<Sum>x\<leftarrow>xs. f x)" by simp
    moreover from Cons.prems have "0 < f x" by simp
    ultimately show ?thesis by simp
  qed
qed

lemma flat_profile:
  assumes "data \<noteq> []" "\<forall>d\<in>set data. close d = c" "fl 0 = 0" "fl c = c"
  shows "length (profile (calculateVolumeProfile fl data)) = 50"
    and "\<forall>b\<in>set (profile (calculateVolumeProfile fl data)).
           priceLow b = c \<and> priceHigh b = c \<and> volume b = 0"
    and "sum_list (map volume (profile (calculateVolumeProfile fl data))) = 0"
    and "map_option volume (poc (calculateVolumeProfile fl data)) = Some 0"
    and "vah (calculateVolumeProfile fl data) = Some NegInfinity"
    and "val (calculateVolumeProfile fl data) = Some PosInfinity"
proof -
  let ?p = "map (makeBin fl data) [0 ..< numBins]"
  let ?poc = "foldl (\<lambda>max curr. if volume curr > volume max then curr else max) (hd ?p) ?p"
  have prof: "profile (calculateVolumeProfile fl data) = ?p"
    using assms(1) by (simp add: calculateVolumeProfile_def Let_def)
  have bins: "\<forall>b\<in>set ?p. priceLow b = c \<and> priceHigh b = c \<and> volume b = 0"
    using flat_bin [OF assms] by auto
  show "length (profile (calculateVolumeProfile fl data)) = 50"
    by (simp add: prof numBins_def)
  from bins show "\<forall>b\<in>set (profile (calculateVolumeProfile fl data)).
           priceLow b = c \<and> priceHigh b = c \<and> volume b = 0"
    by (simp only: prof)
  from bins have "\<forall>x\<in>set (map volume ?p). x = 0" by auto
  then have "sum_list (map volume ?p) = 0" by (rule sum_list_zeros)
  then show "sum_list (map volume (profile (calculateVolumeProfile fl data))) = 0"
    by (simp only: prof)
  have "?p \<noteq> []" by (simp add: numBins_def)
  then have "hd ?p \<in> set ?p" by (rule hd_in_set)
  with poc_fold [of "hd ?p" ?p] have "?poc \<in> set ?p" by auto
  with bins have "volume ?poc = 0" by blast
  moreover have "poc (calculateVolumeProfile fl data) = Some ?poc"
    using assms(1) by (simp add: calculateVolumeProfile_def Let_def)
  ultimately show "map_option volume (poc (calculateVolumeProfile fl data)) = Some 0"
    by simp
  have total: "foldl (\<lambda>sum p. fl (sum + volume p)) 0 ?p = 0"
    using total_of_empty_bins [of fl ?p] assms(3) bins by blast
  have area: "accumulateValueArea fl (fl (foldl (\<lambda>sum p. fl (sum + volume p)) 0 ?p * fl (7 / 10))) 0
      (sort_key (\<lambda>b. - volume b) ?p) = []"
    by (simp only: total mult_zero_left assms(3) no_value_area)
  show "vah (calculateVolumeProfile fl data) = Some NegInfinity"
    using assms(1) by (simp add: calculateVolumeProfile_def Let_def area jsMax_def)
  show "val (calculateVolumeProfile fl data) = Some PosInfinity"
    using assms(1) by (simp add: calculateVolumeProfile_def Let_def area jsMin_def)
qed


lemma twoBars_bin:
  assumes small: "\<forall>k::nat. k \<le> 200 \<longrightarrow> fl (real k) = real k" and i: "i < 50"
  shows "priceLow (makeBin fl twoBars i) = 100 + real i"
    and "priceHigh (makeBin fl twoBars i) = 101 + real i"
    and "volume (makeBin fl twoBars i) = (if i = 0 then 1 else 0)"
proof -
  have prices: "minPrice twoBars = 100" "maxPrice twoBars = 150"
    by (simp_all add: twoBars_def minPrice_def maxPrice_def)
  have f50: "fl 50 = 50" and f1: "fl 1 = 1" and f0: "fl 0 = 0"
    using small [rule_format, of 50] small [rule_format, of 1] small [rule_format, of 0] by simp_all
  have size: "binSize fl twoBars = 1"
    by (simp add: binSize_def prices numBins_def f50 f1)
  have fi: "fl (real i) = real i" using small [rule_format, of i] i by simp
  have flo: "fl (100 + real i) = 100 + real i"
    using small [rule_format, of "100 + i"] i by simp
  have fhi: "fl (101 + real i) = 101 + real i"
    using small [rule_format, of "101 + i"] i by simp
  show lo: "priceLow (makeBin fl twoBars i) = 100 + real i"
    by (simp add: makeBin_def Let_def size prices fi flo)
  show hi: "priceHigh (makeBin fl twoBars i) = 101 + real i"
    by (simp add: makeBin_def Let_def size prices fi flo fhi)
  have "volume (makeBin fl twoBars i) =
      binVolumeOf fl twoBars (priceLow (makeBin fl twoBars i)) (priceHigh (makeBin fl twoBars i))"
    by (simp add: makeBin_def Let_def)
  then have "volume (makeBin fl twoBars i) = binVolumeOf fl twoBars (100 + real i) (101 + real i)"
    by (simp only: lo hi)
  with i show "volume (makeBin fl twoBars i) = (if i = 0 then 1 else 0)"
    by (simp add: binVolumeOf_def twoBars_def barVolume_def orElse_def f1)
qed

lemma twoBars_profile:
  assumes small: "\<forall>k::nat. k \<le> 200 \<longrightarrow> fl (real k) = real k"
  shows "sum_list (map volume (profile (calculateVolumeProfile fl twoBars))) = 1"
    and "\<forall>b\<in>set (profile (calculateVolumeProfile fl twoBars)). priceHigh b \<le> 150"
proof -
  have prof: "profile (calculateVolumeProfile fl twoBars) = map (makeBin fl twoBars) [0 ..< 50]"
    by (simp add: calculateVolumeProfile_def Let_def twoBars_def numBins_def)
  have bins: "map (\<lambda>i. volume (makeBin fl twoBars i)) [0 ..< 50] = map (\<lambda>i. if i = 0 then 1 else 0) [0 ..< 50]"
    by (intro map_cong) (simp_all add: twoBars_bin(3) [OF small])
  have "sum_list (map (\<lambda>i. if i = 0 then 1 else 0) [0 ..< 50]) = (1::real)"
    by (simp add: interv_sum_list_conv_sum_set_nat)
  then have "sum_list (map (\<lambda>i. volume (makeBin fl twoBars i)) [0 ..< 50]) = 1"
    by (simp only: bins)
  then show "sum_list (map volume (profile (calculateVolumeProfile fl twoBars))) = 1"
    by (simp add: prof comp_def)
  show "\<forall>b\<in>set (profile (calculateVolumeProfile fl twoBars)). priceHigh b \<le> 150"
    unfolding prof using twoBars_bin(2) [OF small] by auto
qed

text \<open>
  C1. The claim does not hold of the code, which loses volume. For every non-empty series
  whose closes all equal one double \<open>c\<close>, the profile still has 50 bins and not one, every
  bin is the empty interval \<open>[c, c)\<close> with volume 0, so the bin volumes sum to 0, below the
  total volume of the bars whenever these are positive; the POC has volume 0 and the value
  area is empty, with bounds \<open>-Infinity\<close> and \<open>Infinity\<close>. For two bars of closes 100 and 150
  and volumes 1 and 2, in any arithmetic that is exact on the integers up to 200, no bin
  reaches above 150 and the bin volumes sum to 1, not 3: the bar at the maximum close is
  counted in no bin.
\<close>

theorem volumeProfile_loses_volume:
  "(data \<noteq> [] \<and> fl 0 = 0 \<and> fl c = c \<and> (\<forall>d\<in>set data. close d = c) \<longrightarrow>
      length (profile (calculateVolumeProfile fl data)) = 50 \<and>
      (\<forall>b\<in>set (profile (calculateVolumeProfile fl data)).
         priceLow b = c \<and> priceHigh b = c \<and> volume b = 0) \<and>
      sum_list (map volume (profile (calculateVolumeProfile fl data))) = 0 \<and>
      map_option volume (poc (calculateVolumeProfile fl data)) = Some 0 \<and>
      vah (calculateVolumeProfile fl data) = Some NegInfinity \<and>
      val (calculateVolumeProfile fl data) = Some PosInfinity \<and>
      ((\<forall>d\<in>set data. 0 < barVolume d) \<longrightarrow>
         sum_list (map volume (profile (calculateVolumeProfile fl data))) < totalInputVolume data)) \<and>
   ((\<forall>k::nat. k \<le> 200 \<longrightarrow> fl (real k) = real k) \<longrightarrow>
      sum_list (map volume (profile (calculateVolumeProfile fl twoBars))) = 1 \<and>
      totalInputVolume twoBars = 3 \<and> maxPrice twoBars = 150 \<and>
      (\<forall>b\<in>set (profile (calculateVolumeProfile fl twoBars)). priceHigh b \<le> 150))"
proof (rule conjI)
  show "data \<noteq> [] \<and> fl 0 = 0 \<and> fl c = c \<and> (\<forall>d\<in>set data. close d = c) \<longrightarrow>
      length (profile (calculateVolumeProfile fl data)) = 50 \<and>
      (\<forall>b\<in>set (profile (calculateVolumeProfile fl data)).
         priceLow b = c \<and> priceHigh b = c \<and> volume b = 0) \<and>
      sum_list (map volume (profile (calculateVolumeProfile fl data))) = 0 \<and>
      map_option volume (poc (calculateVolumeProfile fl data)) = Some 0 \<and>
      vah (calculateVolumeProfile fl data) = Some NegInfinity \<and>
      val (calculateVolumeProfile fl data) = Some PosInfinity \<and>
      ((\<forall>d\<in>set data. 0 < barVolume d) \<longrightarrow>
         sum_list (map volume (profile (calculateVolumeProfile fl data))) < totalInputVolume data)"
  proof
    assume h: "data \<noteq> [] \<and> fl 0 = 0 \<and> fl c = c \<and> (\<forall>d\<in>set data. close d = c)"
    then have ne: "data \<noteq> []" and flat: "\<forall>d\<in>set data. close d = c"
      and f0: "fl 0 = 0" and fc: "fl c = c" by simp_all
    note facts = flat_profile [OF ne flat f0 fc]
    have less: "(\<forall>d\<in>set data. 0 < barVolume d) \<longrightarrow>
         sum_list (map volume (profile (calculateVolumeProfile fl data))) < totalInputVolume data"
      using sum_list_positive [OF ne, of barVolume] facts(3)
      by (simp add: totalInputVolume_def)
    from facts less show "length (profile (calculateVolumeProfile fl data)) = 50 \<and>
      (\<forall>b\<in>set (profile (calculateVolumeProfile fl data)).
         priceLow b = c \<and> priceHigh b = c \<and> volume b = 0) \<and>
      sum_list (map volume (profile (calculateVolumeProfile fl data))) = 0 \<and>
      map_option volume (poc (calculateVolumeProfile fl data)) = Some 0 \<and>
      vah (calculateVolumeProfile fl data) = Some NegInfinity \<and>
      val (calculateVolumeProfile fl data) = Some PosInfinity \<and>
      ((\<forall>d\<in>set data. 0 < barVolume d) \<longrightarrow>
         sum_list (map volume (profile (calculateVolumeProfile fl data))) < totalInputVolume data)"
      by (intro conjI)
  qed
next
  show "(\<forall>k::nat. k \<le> 200 \<longrightarrow> fl (real k) = real k) \<longrightarrow>
      sum_list (map volume (profile (calculateVolumeProfile fl twoBars))) = 1 \<and>
      totalInputVolume twoBars = 3 \<and> maxPrice twoBars = 150 \<and>
      (\<forall>b\<in>set (profile (calculateVolumeProfile fl twoBars)). priceHigh b \<le> 150)"
  proof
    assume small: "\<forall>k::nat. k \<le> 200 \<longrightarrow> fl (real k) = real k"
    have "totalInputVolume twoBars = 3" "maxPrice twoBars = 150"
      by (simp_all add: twoBars_def totalInputVolume_def barVolume_def orElse_def maxPrice_def)
    with twoBars_profile [OF small]
    show "sum_list (map volume (profile (calculateVolumeProfile fl twoBars))) = 1 \<and>
      totalInputVolume twoBars = 3 \<and> maxPrice twoBars = 150 \<and>
      (\<forall>b\<in>set (profile (calculateVolumeProfile fl twoBars)). priceHigh b \<le> 150)"
      by (intro conjI)
  qed
qed

theorem volumeProfile_loses_volume_witness:
  "oneBar \<noteq> [] \<and> exact 0 = 0 \<and> exact 100 = 100 \<and> list_all (\<lambda>d. close d = 100) oneBar \<and>
   list_all (\<lambda>d. 0 < barVolume d) oneBar \<and>
   length (profile (calculateVolumeProfile exact oneBar)) = 50 \<and>
   sum_list (map volume (profile (calculateVolumeProfile exact oneBar))) = 0 \<and>
   totalInputVolume oneBar = 5 \<and>
   vah (calculateVolumeProfile exact oneBar) = Some NegInfinity \<and>
   exact (real 200) = real 200 \<and>
   sum_list (map volume (profile (calculateVolumeProfile exact twoBars))) = 1 \<and>
   totalInputVolume twoBars = 3"
proof -
  have one: "oneBar \<noteq> []" "exact 0 = 0" "exact 100 = 100" "\<forall>d\<in>set oneBar. close d = 100"
    "\<forall>d\<in>set oneBar. 0 < barVolume d" "totalInputVolume oneBar = 5"
    by (simp_all add: oneBar_def exact_def barVolume_def orElse_def totalInputVolume_def)
  have small: "\<forall>k::nat. k \<le> 200 \<longrightarrow> exact (real k) = real k"
    by (simp add: exact_def)
  from volumeProfile_loses_volume [of oneBar exact 100] one small
  have "length (profile (calculateVolumeProfile exact oneBar)) = 50"
    and "sum_list (map volume (profile (calculateVolumeProfile exact oneBar))) = 0"
    and "vah (calculateVolumeProfile exact oneBar) = Some NegInfinity"
    and "sum_list (map volume (profile (calculateVolumeProfile exact twoBars))) = 1"
    and "totalInputVolume twoBars = 3"
    by blast+
  with one show ?thesis by (simp add: list_all_iff exact_def)
qed


end
